theory Spec2Isabelle
  imports Main "HOL-Library.AList" "HOL-Library.Word"
begin

section \<open>Errors and the collaborators' data\<close>

text \<open>
  Every exception the Python source can raise is a value. The spec's taxonomy calls the
  \<open>ValueError\<close> of a birth's validation a ValidationError and the \<open>KeyError\<close> of a
  failed lookup in a birth's tables a ResolutionError; the model keeps the names of the
  exceptions the code raises. \<open>DecodeError\<close> stands for the failure of the protobuf or
  JSON parser on bytes of the other representation.
\<close>

datatype error = ValueError | KeyError | TypeError | AttributeError | IndexError | DecodeError

text \<open>
  Modelled from the spec: the enumeration \<open>DataType\<close> of \<open>pysparkplug/_datatype.py\<close>,
  which is not among the sources. The members are the Sparkplug B datatypes; the source
  names \<open>UNKNOWN\<close>, the twelve scalar types, \<open>BYTES\<close>, \<open>DATASET\<close> and \<open>TEMPLATE\<close>.
\<close>

datatype DataType =
    UNKNOWN | INT8 | INT16 | INT32 | INT64 | UINT8 | UINT16 | UINT32 | UINT64
  | FLOAT | DOUBLE | BOOLEAN | STRING | DATETIME | TEXT | UUID | DATASET | BYTES
  | FILE | TEMPLATE

text \<open>
  The values a metric carries, restricted to the JSON-representable atoms (integers,
  booleans, strings), flat lists of atoms, and byte strings. Floating point numbers,
  dictionaries, datasets and templates are outside this universe.
\<close>

datatype atom = AInt int | ABool bool | AStr string

datatype pyval = Atom atom | Bytes "8 word list" | List "atom list"

text \<open>
  Modelled from the spec: the class \<open>Metric\<close> of \<open>pysparkplug/_metric.py\<close>, which is not
  among the sources. The fields are those of the spec's data model and those the source
  reads; the fields \<open>datatype\<close>, \<open>alias\<close> and \<open>value\<close> are called \<open>dtype\<close>,
  \<open>metric_alias\<close> and \<open>metric_value\<close> here.
\<close>

record Metric =
  name :: "string option"
  metric_alias :: "int option"
  timestamp :: "int option"
  dtype :: DataType
  is_historical :: bool
  is_transient :: bool
  is_null :: bool
  metadata :: "atom option"
  properties :: "atom option"
  metric_value :: "pyval option"

text \<open>
  Modelled from the spec: \<open>Metric(**kwargs)\<close> with no argument given; every optional
  field is absent, the datatype is the sentinel and the flags are off.
\<close>

definition Metric_default :: Metric where
  "Metric_default =
     \<lparr>name = None, metric_alias = None, timestamp = None, dtype = UNKNOWN,
      is_historical = False, is_transient = False, is_null = False,
      metadata = None, properties = None, metric_value = None\<rparr>"

text \<open>
  The protobuf messages \<open>Payload\<close> and \<open>Metric\<close> of the binary wire schema, as records of
  optional fields: \<open>None\<close> is a field that is not set, \<open>HasField\<close> is \<open>\<noteq> None\<close>, and reading
  a field that is not set gives the type's default (\<open>0\<close>, the empty string, \<open>UNKNOWN\<close>).
  Serialising and parsing are the protobuf library's and are taken to be inverse to each
  other, so the record is the wire record.
\<close>

record pb_Metric =
  pb_name :: "string option"
  pb_alias :: "int option"
  pb_timestamp :: "int option"
  pb_datatype :: "DataType option"
  pb_is_historical :: "bool option"
  pb_is_transient :: "bool option"
  pb_is_null :: "bool option"
  pb_metadata :: "atom option"
  pb_properties :: "atom option"
  pb_value :: "pyval option"

record pb_Payload =
  pb_payload_timestamp :: "int option"
  pb_metrics :: "pb_Metric list"
  pb_seq :: "int option"

definition read_uint :: "int option \<Rightarrow> int" where
  "read_uint f = (case f of None \<Rightarrow> 0 | Some v \<Rightarrow> v)"

definition read_str :: "string option \<Rightarrow> string" where
  "read_str f = (case f of None \<Rightarrow> [] | Some s \<Rightarrow> s)"

definition read_datatype :: "DataType option \<Rightarrow> DataType" where
  "read_datatype f = (case f of None \<Rightarrow> UNKNOWN | Some d \<Rightarrow> d)"

text \<open>Assigning to a \<open>uint64\<close> field: the protobuf library raises outside the range.\<close>

definition set_uint64 :: "int \<Rightarrow> error + int" where
  "set_uint64 v = (if 0 \<le> v \<and> v < 2 ^ 64 then Inr v else Inl ValueError)"

text \<open>A comprehension whose body may raise: the first error ends it.\<close>

fun traverse :: "('a \<Rightarrow> error + 'b) \<Rightarrow> 'a list \<Rightarrow> error + 'b list" where
  "traverse f [] = Inr []"
| "traverse f (x # xs) =
     (case f x of
        Inl e \<Rightarrow> Inl e
      | Inr y \<Rightarrow> (case traverse f xs of Inl e \<Rightarrow> Inl e | Inr ys \<Rightarrow> Inr (y # ys)))"

section \<open>The payload family\<close>

datatype scope = Node | Device

text \<open>
  \<open>Birth Node\<close> is \<open>NBirth\<close>, \<open>Birth Device\<close> is \<open>DBirth\<close>, and so on for data and commands.
  \<open>NDeath\<close>'s metric is optional because the node session passes \<open>None\<close> for it.
\<close>

datatype Payload =
    Birth scope int int "Metric list"
  | Data scope int int "Metric list"
  | Cmd scope int "Metric list"
  | NDeath "int option" "Metric option"
  | DDeath int int
  | State int bool

text \<open>The classes that inherit \<open>_BasePayload\<close>.\<close>

datatype base_cls = BirthCls scope | DataCls scope | CmdCls scope

subsection \<open>Birth: validation and the derived tables\<close>

text \<open>\<open>Birth.__post_init__\<close>: the checks, in the order of the loop.\<close>

fun Birth_post_init :: "Metric list \<Rightarrow> error + unit" where
  "Birth_post_init [] = Inr ()"
| "Birth_post_init (m # ms) =
     (if name m = None then Inl ValueError
      else if dtype m = UNKNOWN then Inl ValueError
      else Birth_post_init ms)"

text \<open>
  The two dictionaries \<open>__post_init__\<close> fills, as functions of the metric list: a later
  metric overwrites an earlier one with the same key.
\<close>

definition names_mapping :: "Metric list \<Rightarrow> int \<rightharpoonup> string" where
  "names_mapping ms =
     foldl (\<lambda>d m. case (metric_alias m, name m) of (Some a, Some n) \<Rightarrow> d(a \<mapsto> n) | _ \<Rightarrow> d)
       Map.empty ms"

definition dtypes_mapping :: "Metric list \<Rightarrow> string \<rightharpoonup> DataType" where
  "dtypes_mapping ms =
     foldl (\<lambda>d m. case name m of Some n \<Rightarrow> d(n \<mapsto> dtype m) | None \<Rightarrow> d) Map.empty ms"

text \<open>The constructor call \<open>NBirth(timestamp=..., seq=..., metrics=...)\<close>.\<close>

definition Birth_init :: "scope \<Rightarrow> int \<Rightarrow> int \<Rightarrow> Metric list \<Rightarrow> error + Payload" where
  "Birth_init k ts sq ms =
     (case Birth_post_init ms of Inl e \<Rightarrow> Inl e | Inr _ \<Rightarrow> Inr (Birth k ts sq ms))"

text \<open>
  \<open>Birth.get_name\<close> and \<open>Birth.get_dtype\<close>: a missing key raises \<open>KeyError\<close>. A payload
  that is not a birth has neither method.
\<close>

fun get_name :: "Payload \<Rightarrow> int \<Rightarrow> error + string" where
  "get_name (Birth k ts sq ms) a =
     (case names_mapping ms a of None \<Rightarrow> Inl KeyError | Some n \<Rightarrow> Inr n)"
| "get_name p a = Inl AttributeError"

fun get_dtype :: "Payload \<Rightarrow> string option \<Rightarrow> error + DataType" where
  "get_dtype (Birth k ts sq ms) None = Inl KeyError"
| "get_dtype (Birth k ts sq ms) (Some n) =
     (case dtypes_mapping ms n of None \<Rightarrow> Inl KeyError | Some d \<Rightarrow> Inr d)"
| "get_dtype p n = Inl AttributeError"

subsection \<open>Node death\<close>

text \<open>
  \<open>NDeath.decode\<close>, with \<open>Metric.from_pb\<close> (not among the sources) as the parameter
  \<open>from_pb\<close>. The timestamp is read when the field is not set, and is \<open>None\<close> when it is.
\<close>

definition NDeath_decode ::
  "(pb_Metric \<Rightarrow> error + Metric) \<Rightarrow> pb_Payload \<Rightarrow> error + Payload" where
  "NDeath_decode from_pb payload =
     (let ts = (if \<not> (pb_payload_timestamp payload \<noteq> None)
                then Some (read_uint (pb_payload_timestamp payload)) else None)
      in case pb_metrics payload of
           [] \<Rightarrow> Inl IndexError
         | m # _ \<Rightarrow> (case from_pb m of Inl e \<Rightarrow> Inl e | Inr b \<Rightarrow> Inr (NDeath ts (Some b))))"

text \<open>
  \<open>NDeath.encode\<close>, with \<open>Metric.to_pb\<close> as the parameter \<open>to_pb\<close>; the datatype is always
  included. The method call on a metric that is \<open>None\<close> raises \<open>AttributeError\<close>.
\<close>

definition NDeath_encode ::
  "(bool \<Rightarrow> Metric \<Rightarrow> error + pb_Metric) \<Rightarrow> int option \<Rightarrow> Metric option
     \<Rightarrow> error + pb_Payload" where
  "NDeath_encode to_pb ts bd_seq_metric =
     (case (case ts of None \<Rightarrow> Inr None
                     | Some t \<Rightarrow> (case set_uint64 t of Inl e \<Rightarrow> Inl e | Inr v \<Rightarrow> Inr (Some v))) of
        Inl e \<Rightarrow> Inl e
      | Inr f \<Rightarrow>
          (case bd_seq_metric of
             None \<Rightarrow> Inl AttributeError
           | Some b \<Rightarrow>
               (case to_pb True b of
                  Inl e \<Rightarrow> Inl e
                | Inr m \<Rightarrow>
                    Inr \<lparr>pb_payload_timestamp = f, pb_metrics = [m], pb_seq = None\<rparr>)))"

subsection \<open>Device death and state\<close>

text \<open>\<open>DDeath.decode\<close> and \<open>DDeath.encode\<close>: both fields are read with their defaults.\<close>

definition DDeath_decode :: "pb_Payload \<Rightarrow> error + Payload" where
  "DDeath_decode payload =
     Inr (DDeath (read_uint (pb_payload_timestamp payload)) (read_uint (pb_seq payload)))"

definition DDeath_encode :: "int \<Rightarrow> int \<Rightarrow> error + pb_Payload" where
  "DDeath_encode ts sq =
     (case set_uint64 ts of
        Inl e \<Rightarrow> Inl e
      | Inr t \<Rightarrow>
          (case set_uint64 sq of
             Inl e \<Rightarrow> Inl e
           | Inr q \<Rightarrow> Inr \<lparr>pb_payload_timestamp = Some t, pb_metrics = [], pb_seq = Some q\<rparr>))"

subsection \<open>The binary codec of \<open>_BasePayload\<close>\<close>

text \<open>
  The call \<open>cls(**kwargs)\<close> that ends both decoders. A birth or data class needs \<open>seq\<close>,
  a command class does not take it, and every class needs \<open>metrics\<close>; a wrong set of
  keywords raises \<open>TypeError\<close>. A birth then validates its metrics.
\<close>

fun construct :: "base_cls \<Rightarrow> int \<Rightarrow> int option \<Rightarrow> Metric list option \<Rightarrow> error + Payload" where
  "construct (BirthCls k) ts (Some sq) (Some ms) = Birth_init k ts sq ms"
| "construct (DataCls k) ts (Some sq) (Some ms) = Inr (Data k ts sq ms)"
| "construct (CmdCls k) ts None (Some ms) = Inr (Cmd k ts ms)"
| "construct c ts sq ms = Inl TypeError"

text \<open>
  The body of the loop of \<open>_decode_protobuf\<close> over one protobuf metric: a name that is
  empty or not set is looked up under the alias as read (\<open>0\<close> when not set); a datatype
  that reads \<open>UNKNOWN\<close> is looked up under the name as it then stands.
\<close>

definition resolve_pb :: "Payload \<Rightarrow> pb_Metric \<Rightarrow> error + pb_Metric" where
  "resolve_pb birth metric =
     (case (if read_str (pb_name metric) = []
            then (case get_name birth (read_uint (pb_alias metric)) of
                    Inl e \<Rightarrow> Inl e
                  | Inr n \<Rightarrow> Inr (metric\<lparr>pb_name := Some n\<rparr>))
            else Inr metric) of
        Inl e \<Rightarrow> Inl e
      | Inr metric1 \<Rightarrow>
          (if read_datatype (pb_datatype metric1) = UNKNOWN
           then (case get_dtype birth (Some (read_str (pb_name metric1))) of
                   Inl e \<Rightarrow> Inl e
                 | Inr d \<Rightarrow> Inr (metric1\<lparr>pb_datatype := Some d\<rparr>))
           else Inr metric1))"

text \<open>\<open>_BasePayload._decode_protobuf\<close>, with \<open>Metric.from_pb\<close> as the parameter.\<close>

definition decode_protobuf ::
  "(pb_Metric \<Rightarrow> error + Metric) \<Rightarrow> base_cls \<Rightarrow> Payload option \<Rightarrow> pb_Payload
     \<Rightarrow> error + Payload" where
  "decode_protobuf from_pb cls birth payload =
     (case (case birth of
              None \<Rightarrow> Inr (pb_metrics payload)
            | Some b \<Rightarrow> traverse (resolve_pb b) (pb_metrics payload)) of
        Inl e \<Rightarrow> Inl e
      | Inr pms \<Rightarrow>
          (case traverse from_pb pms of
             Inl e \<Rightarrow> Inl e
           | Inr ms \<Rightarrow>
               construct cls (read_uint (pb_payload_timestamp payload)) (pb_seq payload)
                 (Some ms)))"

text \<open>
  \<open>_BasePayload._encode_protobuf\<close> on the fields of the payload: \<open>sq\<close> is \<open>None\<close> for a
  class without the attribute \<open>seq\<close>.
\<close>

definition encode_protobuf ::
  "(bool \<Rightarrow> Metric \<Rightarrow> error + pb_Metric) \<Rightarrow> bool \<Rightarrow> int \<Rightarrow> int option \<Rightarrow> Metric list
     \<Rightarrow> error + pb_Payload" where
  "encode_protobuf to_pb include_dtypes ts sq ms =
     (case set_uint64 ts of
        Inl e \<Rightarrow> Inl e
      | Inr t \<Rightarrow>
          (case (case sq of None \<Rightarrow> Inr None
                          | Some q \<Rightarrow> (case set_uint64 q of Inl e \<Rightarrow> Inl e
                                                          | Inr v \<Rightarrow> Inr (Some v))) of
             Inl e \<Rightarrow> Inl e
           | Inr q \<Rightarrow>
               (case traverse (to_pb include_dtypes) ms of
                  Inl e \<Rightarrow> Inl e
                | Inr pms \<Rightarrow>
                    Inr \<lparr>pb_payload_timestamp = Some t, pb_metrics = pms, pb_seq = q\<rparr>)))"

subsection \<open>The text codec\<close>

text \<open>
  A JSON object with a fixed set of possible keys is a record of optional fields:
  \<open>None\<close> is a key that is absent. \<open>json.dumps\<close> and \<open>json.loads\<close> are the standard
  library's and are taken to be inverse to each other on what can be serialised.
\<close>

record JsonMetric =
  j_name :: "string option"
  j_alias :: "int option"
  j_timestamp :: "int option"
  j_datatype :: "DataType option"
  j_is_historical :: "bool option"
  j_is_transient :: "bool option"
  j_is_null :: "bool option"
  j_metadata :: "atom option"
  j_properties :: "atom option"
  j_value :: "pyval option"

record JsonPayload =
  jp_timestamp :: "int option"
  jp_seq :: "int option"
  jp_metrics :: "JsonMetric list option"
  jp_bd_seq_metric :: "JsonMetric option"
  jp_online :: "bool option"

text \<open>The twelve datatypes whose value both functions pass through unchanged.\<close>

definition scalar_dtype :: "DataType \<Rightarrow> bool" where
  "scalar_dtype d \<longleftrightarrow>
     d \<in> set [BOOLEAN, INT8, INT16, INT32, INT64, UINT8, UINT16, UINT32, UINT64,
              FLOAT, DOUBLE, STRING]"

text \<open>
  Python's \<open>list(v)\<close>: the bytes of a byte string as integers, the characters of a
  string, a list itself; an integer or a boolean is not iterable.
\<close>

fun py_list :: "pyval \<Rightarrow> error + pyval" where
  "py_list (Bytes bs) = Inr (List (map (\<lambda>b. AInt (uint b)) bs))"
| "py_list (Atom (AStr s)) = Inr (List (map (\<lambda>c. AStr [c]) s))"
| "py_list (List xs) = Inr (List xs)"
| "py_list (Atom (AInt i)) = Inl TypeError"
| "py_list (Atom (ABool b)) = Inl TypeError"

text \<open>
  Python's \<open>bytes(v)\<close>: a list of integers in \<open>range(256)\<close> (a boolean is an integer)
  becomes a byte string, a count \<open>n\<close> becomes \<open>n\<close> zero bytes, a string is refused.
\<close>

fun byte_of_atom :: "atom \<Rightarrow> error + 8 word" where
  "byte_of_atom (AInt i) = (if 0 \<le> i \<and> i < 256 then Inr (word_of_int i) else Inl ValueError)"
| "byte_of_atom (ABool b) = Inr (if b then 1 else 0)"
| "byte_of_atom (AStr s) = Inl TypeError"

fun py_bytes :: "pyval \<Rightarrow> error + pyval" where
  "py_bytes (List xs) =
     (case traverse byte_of_atom xs of Inl e \<Rightarrow> Inl e | Inr bs \<Rightarrow> Inr (Bytes bs))"
| "py_bytes (Atom (AInt n)) =
     (if n < 0 then Inl ValueError else Inr (Bytes (replicate (nat n) 0)))"
| "py_bytes (Atom (ABool b)) = Inr (Bytes (replicate (if b then 1 else 0) 0))"
| "py_bytes (Atom (AStr s)) = Inl TypeError"
| "py_bytes (Bytes bs) = Inr (Bytes bs)"

text \<open>
  The chain "Handle value based on datatype" of \<open>metric_to_json\<close>. No value of the
  universe has the attributes the dataset and template branches read, and a datatype
  outside the four branches gets no value.
\<close>

definition value_to_json :: "DataType \<Rightarrow> pyval \<Rightarrow> error + pyval option" where
  "value_to_json d v =
     (if scalar_dtype d then Inr (Some v)
      else if d = BYTES then (case py_list v of Inl e \<Rightarrow> Inl e | Inr l \<Rightarrow> Inr (Some l))
      else if d = DATASET then Inl AttributeError
      else if d = TEMPLATE then Inl AttributeError
      else Inr None)"

text \<open>\<open>metric_to_json\<close>; the argument \<open>include_dtype\<close> is not read by the body.\<close>

definition metric_to_json :: "Metric \<Rightarrow> bool \<Rightarrow> error + JsonMetric" where
  "metric_to_json metric include_dtype =
     (case (case metric_value metric of
              None \<Rightarrow> Inr None
            | Some v \<Rightarrow> (if \<not> is_null metric then value_to_json (dtype metric) v else Inr None)) of
        Inl e \<Rightarrow> Inl e
      | Inr jv \<Rightarrow>
          Inr \<lparr>j_name = name metric,
               j_alias = metric_alias metric,
               j_timestamp = timestamp metric,
               j_datatype = (if dtype metric \<noteq> UNKNOWN then Some (dtype metric) else None),
               j_is_historical = (if is_historical metric then Some True else None),
               j_is_transient = (if is_transient metric then Some True else None),
               j_is_null = (if is_null metric then Some True else None),
               j_metadata = metadata metric,
               j_properties = properties metric,
               j_value = jv\<rparr>)"

text \<open>
  The chain "Handle value based on datatype" of \<open>metric_from_json\<close>, on
  \<open>kwargs.get("datatype")\<close>: without the key \<open>datatype\<close> no branch is taken. Subscripting a
  value of the universe with a string raises \<open>TypeError\<close>.
\<close>

definition value_from_json :: "DataType option \<Rightarrow> pyval \<Rightarrow> error + pyval option" where
  "value_from_json kd v =
     (case kd of
        None \<Rightarrow> Inr None
      | Some d \<Rightarrow>
          (if scalar_dtype d then Inr (Some v)
           else if d = BYTES then (case py_bytes v of Inl e \<Rightarrow> Inl e | Inr b \<Rightarrow> Inr (Some b))
           else if d = DATASET then Inl TypeError
           else if d = TEMPLATE then Inl TypeError
           else Inr None))"

text \<open>
  \<open>metric_from_json\<close>: the keyword arguments collected from the keys that are present,
  over the defaults of \<open>Metric\<close>.
\<close>

definition metric_from_json :: "JsonMetric \<Rightarrow> error + Metric" where
  "metric_from_json data =
     (case (case j_value data of
              None \<Rightarrow> Inr None
            | Some v \<Rightarrow> (if \<not> (j_is_null data = Some True)
                         then value_from_json (j_datatype data) v else Inr None)) of
        Inl e \<Rightarrow> Inl e
      | Inr v \<Rightarrow>
          Inr (Metric_default
                 \<lparr>name := j_name data,
                  metric_alias := j_alias data,
                  timestamp := j_timestamp data,
                  dtype := read_datatype (j_datatype data),
                  is_historical := (j_is_historical data = Some True),
                  is_transient := (j_is_transient data = Some True),
                  is_null := (j_is_null data = Some True),
                  metadata := j_metadata data,
                  properties := j_properties data,
                  metric_value := v\<rparr>))"

text \<open>\<open>json.dumps\<close> refuses a byte string.\<close>

definition json_serializable :: "JsonMetric \<Rightarrow> bool" where
  "json_serializable jm = (case j_value jm of Some (Bytes bs) \<Rightarrow> False | _ \<Rightarrow> True)"

text \<open>
  \<open>payload_to_json\<close> as \<open>_BasePayload.encode\<close> calls it, on a payload with the attribute
  \<open>metrics\<close>: \<open>sq\<close> is \<open>None\<close> for a class without the attribute \<open>seq\<close>.
\<close>

definition payload_to_json :: "bool \<Rightarrow> int \<Rightarrow> int option \<Rightarrow> Metric list \<Rightarrow> error + JsonPayload" where
  "payload_to_json include_dtypes ts sq ms =
     (case traverse (\<lambda>m. metric_to_json m include_dtypes) ms of
        Inl e \<Rightarrow> Inl e
      | Inr jms \<Rightarrow>
          (if list_all json_serializable jms
           then Inr \<lparr>jp_timestamp = Some ts, jp_seq = sq, jp_metrics = Some jms,
                     jp_bd_seq_metric = None, jp_online = None\<rparr>
           else Inl TypeError))"

text \<open>
  The body of the loop of \<open>payload_from_json\<close> over one decoded metric (the metric object
  is taken to be assignable): a name that is \<open>None\<close> or empty is looked up only when the
  alias is present.
\<close>

definition resolve_json :: "Payload \<Rightarrow> Metric \<Rightarrow> error + Metric" where
  "resolve_json birth metric =
     (case (if (name metric = None \<or> name metric = Some []) \<and> metric_alias metric \<noteq> None
            then (case get_name birth (read_uint (metric_alias metric)) of
                    Inl e \<Rightarrow> Inl e
                  | Inr n \<Rightarrow> Inr (metric\<lparr>name := Some n\<rparr>))
            else Inr metric) of
        Inl e \<Rightarrow> Inl e
      | Inr metric1 \<Rightarrow>
          (if dtype metric1 = UNKNOWN
           then (case get_dtype birth (name metric1) of
                   Inl e \<Rightarrow> Inl e
                 | Inr d \<Rightarrow> Inr (metric1\<lparr>dtype := d\<rparr>))
           else Inr metric1))"

text \<open>\<open>payload_from_json\<close> for a class \<open>cls\<close> that inherits \<open>_BasePayload\<close>.\<close>

definition payload_from_json :: "base_cls \<Rightarrow> Payload option \<Rightarrow> JsonPayload \<Rightarrow> error + Payload" where
  "payload_from_json cls birth data =
     (case jp_timestamp data of
        None \<Rightarrow> Inl KeyError
      | Some ts \<Rightarrow>
          (case jp_metrics data of
             Some jms \<Rightarrow>
               (case traverse metric_from_json jms of
                  Inl e \<Rightarrow> Inl e
                | Inr metrics \<Rightarrow>
                    (case (case birth of
                             None \<Rightarrow> Inr metrics
                           | Some b \<Rightarrow> traverse (resolve_json b) metrics) of
                       Inl e \<Rightarrow> Inl e
                     | Inr ms \<Rightarrow> construct cls ts (jp_seq data) (Some ms)))
           | None \<Rightarrow>
               (case jp_bd_seq_metric data of
                  Some jm \<Rightarrow>
                    (case metric_from_json jm of
                       Inl e \<Rightarrow> Inl e
                     | Inr b \<Rightarrow> construct cls ts (jp_seq data) None)
                | None \<Rightarrow> construct cls ts (jp_seq data) None)))"

text \<open>\<open>State.decode\<close> and \<open>State.encode\<close>: always JSON.\<close>

definition State_decode :: "JsonPayload \<Rightarrow> error + Payload" where
  "State_decode state =
     (case jp_timestamp state of
        None \<Rightarrow> Inl KeyError
      | Some ts \<Rightarrow> (case jp_online state of None \<Rightarrow> Inl KeyError | Some b \<Rightarrow> Inr (State ts b)))"

definition State_encode :: "int \<Rightarrow> bool \<Rightarrow> JsonPayload" where
  "State_encode ts online =
     \<lparr>jp_timestamp = Some ts, jp_seq = None, jp_metrics = None, jp_bd_seq_metric = None,
      jp_online = Some online\<rparr>"

subsection \<open>Encode and decode of every class\<close>

text \<open>
  The bytes on the wire are a serialised protobuf message or a JSON document; a parser
  given the other kind fails.
\<close>

datatype raw = Protobuf pb_Payload | Json JsonPayload

datatype payload_cls = Base base_cls | NDeathCls | DDeathCls | StateCls

fun cls_of :: "Payload \<Rightarrow> payload_cls" where
  "cls_of (Birth k ts sq ms) = Base (BirthCls k)"
| "cls_of (Data k ts sq ms) = Base (DataCls k)"
| "cls_of (Cmd k ts ms) = Base (CmdCls k)"
| "cls_of (NDeath ts m) = NDeathCls"
| "cls_of (DDeath ts sq) = DDeathCls"
| "cls_of (State ts b) = StateCls"

text \<open>
  \<open>_BasePayload.decode\<close> and \<open>_BasePayload.encode\<close>: the class attribute
  \<open>use_json_payload\<close> is the parameter \<open>use_json\<close>.
\<close>

definition BasePayload_decode ::
  "bool \<Rightarrow> (pb_Metric \<Rightarrow> error + Metric) \<Rightarrow> base_cls \<Rightarrow> Payload option \<Rightarrow> raw
     \<Rightarrow> error + Payload" where
  "BasePayload_decode use_json from_pb cls birth r =
     (if use_json
      then (case r of Json d \<Rightarrow> payload_from_json cls birth d | Protobuf w \<Rightarrow> Inl DecodeError)
      else (case r of Protobuf w \<Rightarrow> decode_protobuf from_pb cls birth w
                    | Json d \<Rightarrow> Inl DecodeError))"

definition BasePayload_encode ::
  "bool \<Rightarrow> (bool \<Rightarrow> Metric \<Rightarrow> error + pb_Metric) \<Rightarrow> bool \<Rightarrow> int \<Rightarrow> int option \<Rightarrow> Metric list
     \<Rightarrow> error + raw" where
  "BasePayload_encode use_json to_pb include_dtypes ts sq ms =
     (if use_json
      then (case payload_to_json include_dtypes ts sq ms of
              Inl e \<Rightarrow> Inl e | Inr d \<Rightarrow> Inr (Json d))
      else (case encode_protobuf to_pb include_dtypes ts sq ms of
              Inl e \<Rightarrow> Inl e | Inr w \<Rightarrow> Inr (Protobuf w)))"

text \<open>
  \<open>encode\<close> of each class: a birth forces \<open>include_dtypes\<close>; the two deaths always use
  protobuf and the state always uses JSON, whatever \<open>use_json\<close> is.
\<close>

fun encode ::
  "bool \<Rightarrow> (bool \<Rightarrow> Metric \<Rightarrow> error + pb_Metric) \<Rightarrow> bool \<Rightarrow> Payload \<Rightarrow> error + raw" where
  "encode use_json to_pb include_dtypes (Birth k ts sq ms) =
     BasePayload_encode use_json to_pb True ts (Some sq) ms"
| "encode use_json to_pb include_dtypes (Data k ts sq ms) =
     BasePayload_encode use_json to_pb include_dtypes ts (Some sq) ms"
| "encode use_json to_pb include_dtypes (Cmd k ts ms) =
     BasePayload_encode use_json to_pb include_dtypes ts None ms"
| "encode use_json to_pb include_dtypes (NDeath ts m) =
     (case NDeath_encode to_pb ts m of Inl e \<Rightarrow> Inl e | Inr w \<Rightarrow> Inr (Protobuf w))"
| "encode use_json to_pb include_dtypes (DDeath ts sq) =
     (case DDeath_encode ts sq of Inl e \<Rightarrow> Inl e | Inr w \<Rightarrow> Inr (Protobuf w))"
| "encode use_json to_pb include_dtypes (State ts b) = Inr (Json (State_encode ts b))"

text \<open>\<open>decode\<close> of each class: a birth drops the \<open>birth\<close> it is given.\<close>

fun decode ::
  "bool \<Rightarrow> (pb_Metric \<Rightarrow> error + Metric) \<Rightarrow> payload_cls \<Rightarrow> Payload option \<Rightarrow> raw
     \<Rightarrow> error + Payload" where
  "decode use_json from_pb (Base (BirthCls k)) birth r =
     BasePayload_decode use_json from_pb (BirthCls k) None r"
| "decode use_json from_pb (Base c) birth r = BasePayload_decode use_json from_pb c birth r"
| "decode use_json from_pb NDeathCls birth (Protobuf w) = NDeath_decode from_pb w"
| "decode use_json from_pb DDeathCls birth (Protobuf w) = DDeath_decode w"
| "decode use_json from_pb StateCls birth (Json d) = State_decode d"
| "decode use_json from_pb c birth r = Inl DecodeError"

text \<open>\<open>decode(encode(x))\<close> with the class of \<open>x\<close> and no birth given.\<close>

definition decode_encode ::
  "bool \<Rightarrow> (bool \<Rightarrow> Metric \<Rightarrow> error + pb_Metric) \<Rightarrow> (pb_Metric \<Rightarrow> error + Metric) \<Rightarrow> bool
     \<Rightarrow> Payload \<Rightarrow> error + Payload" where
  "decode_encode use_json to_pb from_pb include_dtypes x =
     (case encode use_json to_pb include_dtypes x of
        Inl e \<Rightarrow> Inl e
      | Inr r \<Rightarrow> decode use_json from_pb (cls_of x) None r)"

subsection \<open>The metric's own protobuf conversion\<close>

text \<open>
  Modelled from the spec: \<open>Metric.to_pb\<close> and \<open>Metric.from_pb\<close> of
  \<open>pysparkplug/_metric.py\<close>, which are not among the sources. The conversion is field
  for field, with the datatype written only when the caller asks for it. The codec
  above takes the two conversions as parameters; these two instantiate them in the
  examples.
\<close>

definition Metric_to_pb :: "bool \<Rightarrow> Metric \<Rightarrow> error + pb_Metric" where
  "Metric_to_pb include_dtype m =
     Inr \<lparr>pb_name = name m, pb_alias = metric_alias m, pb_timestamp = timestamp m,
          pb_datatype = (if include_dtype then Some (dtype m) else None),
          pb_is_historical = Some (is_historical m),
          pb_is_transient = Some (is_transient m),
          pb_is_null = Some (is_null m),
          pb_metadata = metadata m, pb_properties = properties m,
          pb_value = metric_value m\<rparr>"

definition Metric_from_pb :: "pb_Metric \<Rightarrow> error + Metric" where
  "Metric_from_pb p =
     Inr \<lparr>name = pb_name p, metric_alias = pb_alias p, timestamp = pb_timestamp p,
          dtype = read_datatype (pb_datatype p),
          is_historical = (pb_is_historical p = Some True),
          is_transient = (pb_is_transient p = Some True),
          is_null = (pb_is_null p = Some True),
          metadata = pb_metadata p, properties = pb_properties p,
          metric_value = pb_value p\<rparr>"

subsection \<open>When a payload survives the wire\<close>

text \<open>
  A metric survives the binary codec when the metric's own conversion, with the
  datatype included or not as \<open>include_dtype\<close> says, gives it back.
\<close>

definition pb_faithful ::
  "(bool \<Rightarrow> Metric \<Rightarrow> error + pb_Metric) \<Rightarrow> (pb_Metric \<Rightarrow> error + Metric) \<Rightarrow> bool \<Rightarrow> Metric
     \<Rightarrow> bool" where
  "pb_faithful to_pb from_pb include_dtype m =
     (case to_pb include_dtype m of Inl e \<Rightarrow> False | Inr p \<Rightarrow> from_pb p = Inr m)"

text \<open>
  A metric survives the text codec when it has no value, or it is not null and its value
  is one the text codec carries for its datatype: anything but a byte string for a
  scalar datatype, a byte string for \<open>BYTES\<close>.
\<close>

definition json_faithful :: "Metric \<Rightarrow> bool" where
  "json_faithful m =
     (case metric_value m of
        None \<Rightarrow> True
      | Some (Bytes bs) \<Rightarrow> \<not> is_null m \<and> dtype m = BYTES
      | Some v \<Rightarrow> \<not> is_null m \<and> scalar_dtype (dtype m))"

definition uint64 :: "int \<Rightarrow> bool" where
  "uint64 v \<longleftrightarrow> 0 \<le> v \<and> v < 2 ^ 64"

text \<open>
  The payloads of the round-trip lemma: a birth is one its constructor accepts, the
  integers of a protobuf message fit their fields, every metric survives the codec in
  use. A node death is not among them.
\<close>

fun wire_ok ::
  "bool \<Rightarrow> (bool \<Rightarrow> Metric \<Rightarrow> error + pb_Metric) \<Rightarrow> (pb_Metric \<Rightarrow> error + Metric) \<Rightarrow> bool
     \<Rightarrow> Payload \<Rightarrow> bool" where
  "wire_ok use_json to_pb from_pb include_dtypes (Birth k ts sq ms) =
     (Birth_post_init ms = Inr () \<and>
      (if use_json then list_all json_faithful ms
       else uint64 ts \<and> uint64 sq \<and> list_all (pb_faithful to_pb from_pb True) ms))"
| "wire_ok use_json to_pb from_pb include_dtypes (Data k ts sq ms) =
     (if use_json then list_all json_faithful ms
      else uint64 ts \<and> uint64 sq \<and> list_all (pb_faithful to_pb from_pb include_dtypes) ms)"
| "wire_ok use_json to_pb from_pb include_dtypes (Cmd k ts ms) =
     (if use_json then list_all json_faithful ms
      else uint64 ts \<and> list_all (pb_faithful to_pb from_pb include_dtypes) ms)"
| "wire_ok use_json to_pb from_pb include_dtypes (NDeath ts m) = False"
| "wire_ok use_json to_pb from_pb include_dtypes (DDeath ts sq) = (uint64 ts \<and> uint64 sq)"
| "wire_ok use_json to_pb from_pb include_dtypes (State ts b) = True"

subsection \<open>Metrics a birth cannot resolve\<close>

text \<open>
  The name a metric has after the first lookup of the decoder, and the condition under
  which one of the two lookups misses its key, for a protobuf metric and for a metric
  decoded from JSON. For the text codec the outer \<open>None\<close> is a missed alias; the inner
  option is the name, which stays \<open>None\<close> when the metric has neither name nor alias.
\<close>

definition pb_resolved_name :: "Metric list \<Rightarrow> pb_Metric \<Rightarrow> string option" where
  "pb_resolved_name bms m =
     (if read_str (pb_name m) = [] then names_mapping bms (read_uint (pb_alias m))
      else Some (read_str (pb_name m)))"

definition pb_unresolvable :: "Metric list \<Rightarrow> pb_Metric \<Rightarrow> bool" where
  "pb_unresolvable bms m =
     (case pb_resolved_name bms m of
        None \<Rightarrow> True
      | Some n \<Rightarrow> read_datatype (pb_datatype m) = UNKNOWN \<and> dtypes_mapping bms n = None)"

definition json_resolved_name :: "Metric list \<Rightarrow> Metric \<Rightarrow> string option option" where
  "json_resolved_name bms m =
     (if (name m = None \<or> name m = Some []) \<and> metric_alias m \<noteq> None
      then (case names_mapping bms (read_uint (metric_alias m)) of
              None \<Rightarrow> None | Some n \<Rightarrow> Some (Some n))
      else Some (name m))"

definition json_unresolvable :: "Metric list \<Rightarrow> Metric \<Rightarrow> bool" where
  "json_unresolvable bms m =
     (case json_resolved_name bms m of
        None \<Rightarrow> True
      | Some None \<Rightarrow> dtype m = UNKNOWN
      | Some (Some n) \<Rightarrow> dtype m = UNKNOWN \<and> dtypes_mapping bms n = None)"

section \<open>Messages and the node session\<close>

text \<open>
  Modelled from the spec: the enumerations \<open>MessageType\<close> and \<open>QoS\<close> of
  \<open>pysparkplug/_enums.py\<close> and the class \<open>Topic\<close> of \<open>pysparkplug/_topic.py\<close>, which are
  not among the sources. A topic is the record of the fields the source reads; a field
  the constructor is not given is \<open>None\<close>, and the namespace it then has is
  \<open>spBv1.0\<close>.
\<close>

datatype MessageType = NBIRTH | DBIRTH | NDATA | DDATA | NCMD | DCMD | NDEATH | DDEATH | STATE

datatype QoS = AT_MOST_ONCE | AT_LEAST_ONCE | EXACTLY_ONCE

record Topic =
  message_type :: MessageType
  group_id :: "string option"
  edge_node_id :: "string option"
  device_id :: "string option"
  sparkplug_host_id :: "string option"
  namespace :: string

record Message =
  topic :: Topic
  payload :: Payload
  qos :: QoS
  retain :: bool

text \<open>
  The log of the transport: the calls the session has made on it, oldest first:
  \<open>publish(message, include_dtypes=...)\<close>, with \<open>None\<close> when the keyword is not passed,
  and \<open>disconnect()\<close>.
\<close>

datatype client_call = Publish Message "bool option" | Disconnect

type_synonym identity = "string option \<times> string option"

text \<open>
  A Python dictionary keeps its keys in order of insertion: an association list with
  distinct keys, where \<open>AList.update\<close> overwrites a key in place and appends a new one.
\<close>

record DataOpsNode =
  node_id :: string
  client :: "client_call list"
  connected :: bool
  published_metrics :: "(identity \<times> (string option \<times> Metric) list) list"
  retain_birth_certificates :: bool

text \<open>
  The payloads whose \<open>encode\<close> raises whatever \<open>Metric.to_pb\<close> and the codec setting are,
  with the error it raises: a node death whose metric is \<open>None\<close>. \<open>NDeath.encode\<close> first
  assigns the timestamp and then calls \<open>to_pb\<close> on the metric.
\<close>

fun unencodable :: "Payload \<Rightarrow> error option" where
  "unencodable (NDeath (Some t) None) =
     (case set_uint64 t of Inl e \<Rightarrow> Some e | Inr v \<Rightarrow> Some AttributeError)"
| "unencodable (NDeath None None) = Some AttributeError"
| "unencodable p = None"

text \<open>
  Modelled from the spec: \<open>Client.publish(message, include_dtypes=...)\<close> of
  \<open>pysparkplug/_client.py\<close>, which is not among the sources. A message holds the payload
  object, not its bytes, and \<open>include_dtypes\<close> is an argument of this call, so the
  transport encodes the payload of the message it is handed. The call is entered in the
  log. For a payload whose \<open>encode\<close> raises whatever the metric conversion is, the call
  raises that error; a payload with its metrics is taken to be sent.
\<close>

definition client_publish ::
  "DataOpsNode \<Rightarrow> Message \<Rightarrow> bool option \<Rightarrow> error option \<times> DataOpsNode" where
  "client_publish self message include_dtypes =
     (unencodable (payload message),
      self\<lparr>client := client self @ [Publish message include_dtypes]\<rparr>)"

text \<open>
  \<open>_publish_nbirth\<close>; \<open>now\<close> is what \<open>get_current_timestamp()\<close> returns. The constructor
  of the birth can raise: the session is then as it was and the error is returned.
\<close>

definition nbirth_message ::
  "string option \<Rightarrow> string option \<Rightarrow> Payload \<Rightarrow> bool \<Rightarrow> Message" where
  "nbirth_message g e p retain_birth =
     \<lparr>topic = \<lparr>message_type = NBIRTH, group_id = g, edge_node_id = e,
                device_id = None, sparkplug_host_id = None, namespace = ''spBv1.0''\<rparr>,
      payload = p, qos = AT_MOST_ONCE, retain = retain_birth\<rparr>"

definition publish_nbirth ::
  "DataOpsNode \<Rightarrow> string option \<Rightarrow> string option \<Rightarrow> Metric list \<Rightarrow> int
     \<Rightarrow> error option \<times> DataOpsNode" where
  "publish_nbirth self g e metrics now =
     (case Birth_init Node now 0 metrics of
        Inl err \<Rightarrow> (Some err, self)
      | Inr p \<Rightarrow>
          client_publish self (nbirth_message g e p (retain_birth_certificates self))
            (Some True))"

text \<open>
  \<open>_publish_ndeath\<close>: the message it builds, whose payload has \<open>None\<close> for the metric, and
  the call that hands it to the transport without the keyword \<open>include_dtypes\<close>.
\<close>

definition ndeath_message :: "string option \<Rightarrow> string option \<Rightarrow> int \<Rightarrow> Message" where
  "ndeath_message g e now =
     \<lparr>topic = \<lparr>message_type = NDEATH, group_id = g, edge_node_id = e,
                device_id = None, sparkplug_host_id = None, namespace = ''spBv1.0''\<rparr>,
      payload = NDeath (Some now) None, qos = AT_MOST_ONCE, retain = False\<rparr>"

definition publish_ndeath ::
  "DataOpsNode \<Rightarrow> string option \<Rightarrow> string option \<Rightarrow> int \<Rightarrow> error option \<times> DataOpsNode" where
  "publish_ndeath self g e now = client_publish self (ndeath_message g e now) None"

text \<open>The comprehension \<open>{metric.name: metric for metric in metrics}\<close> and the merge loop.\<close>

definition merge_metrics ::
  "(string option \<times> Metric) list \<Rightarrow> Metric list \<Rightarrow> (string option \<times> Metric) list" where
  "merge_metrics d metrics = foldl (\<lambda>d m. AList.update (name m) m d) d metrics"

text \<open>
  \<open>DataOpsNode.publish\<close>. The entry of a new identity is stored before the birth is
  built, so it stays when the birth's constructor raises.
\<close>

definition publish ::
  "DataOpsNode \<Rightarrow> Topic \<Rightarrow> Metric list \<Rightarrow> QoS \<Rightarrow> bool \<Rightarrow> int \<Rightarrow> error option \<times> DataOpsNode" where
  "publish self tp metrics q r now =
     (let key = (group_id tp, edge_node_id tp) in
      case map_of (published_metrics self) key of
        None \<Rightarrow>
          publish_nbirth
            (self\<lparr>published_metrics :=
                    AList.update key (merge_metrics [] metrics) (published_metrics self)\<rparr>)
            (group_id tp) (edge_node_id tp) metrics now
      | Some snapshot \<Rightarrow>
          client_publish
            (self\<lparr>published_metrics :=
                    AList.update key (merge_metrics snapshot metrics) (published_metrics self)\<rparr>)
            \<lparr>topic = tp, payload = Data Node now 0 metrics, qos = q, retain = r\<rparr>
            (Some True))"

text \<open>What a call of the session has handed to the transport: the new end of the log.\<close>

definition emitted :: "DataOpsNode \<Rightarrow> DataOpsNode \<Rightarrow> client_call list" where
  "emitted before after = drop (length (client before)) (client after)"

text \<open>
  The loop of \<open>DataOpsNode.disconnect\<close> over the items of the dictionary: an error of
  \<open>_publish_ndeath\<close> ends it. \<open>now k\<close> is the clock when the death of identity \<open>k\<close> is
  built.
\<close>

fun publish_ndeaths ::
  "DataOpsNode \<Rightarrow> (identity \<Rightarrow> int) \<Rightarrow> (identity \<times> (string option \<times> Metric) list) list
     \<Rightarrow> error option \<times> DataOpsNode" where
  "publish_ndeaths self now [] = (None, self)"
| "publish_ndeaths self now ((k, v) # items) =
     (case publish_ndeath self (fst k) (snd k) (now k) of
        (Some err, self1) \<Rightarrow> (Some err, self1)
      | (None, self1) \<Rightarrow> publish_ndeaths self1 now items)"

text \<open>
  \<open>DataOpsNode.disconnect\<close>: an error in the loop leaves the method before the
  transport's \<open>disconnect\<close> and before the flag is cleared.
\<close>

definition disconnect ::
  "DataOpsNode \<Rightarrow> (identity \<Rightarrow> int) \<Rightarrow> error option \<times> DataOpsNode" where
  "disconnect self now =
     (case (if connected self then publish_ndeaths self now (published_metrics self)
            else (None, self)) of
        (Some err, self1) \<Rightarrow> (Some err, self1)
      | (None, self1) \<Rightarrow>
          (None, self1\<lparr>client := client self1 @ [Disconnect], connected := False\<rparr>))"

section \<open>Topic hierarchy\<close>

text \<open>Python's \<open>s.split(sep)\<close> for a separator of one character.\<close>

fun split :: "char \<Rightarrow> string \<Rightarrow> string list" where
  "split sep [] = [[]]"
| "split sep (c # cs) =
     (if c = sep then [] # split sep cs
      else (case split sep cs of w # ws \<Rightarrow> (c # w) # ws | [] \<Rightarrow> [[c]]))"

text \<open>
  \<open>get_topic_hierarchy_from_spb_parris_encoding\<close>. Calling \<open>split\<close> on a group or a name
  that is \<open>None\<close> raises \<open>AttributeError\<close>.
\<close>

definition get_topic_hierarchy_from_spb_parris_encoding ::
  "Message \<Rightarrow> Metric \<Rightarrow> error + string list" where
  "get_topic_hierarchy_from_spb_parris_encoding message metric =
     (if \<not> namespace (topic message) = ''spBv1.0'' then Inl ValueError
      else
        (case group_id (topic message) of
           None \<Rightarrow> Inl AttributeError
         | Some g \<Rightarrow>
             (let topic_hierarchy = split CHR '':'' g in
              case (if edge_node_id (topic message) \<noteq> None \<and>
                       sparkplug_host_id (topic message) \<noteq> None
                    then Inl ValueError
                    else
                      (case edge_node_id (topic message) of
                         Some e \<Rightarrow>
                           Inr (topic_hierarchy @ [e] @
                                  (case device_id (topic message) of
                                     Some d \<Rightarrow> [d] | None \<Rightarrow> []))
                       | None \<Rightarrow>
                           (case sparkplug_host_id (topic message) of
                              Some h \<Rightarrow> Inr (topic_hierarchy @ [h])
                            | None \<Rightarrow> Inr topic_hierarchy))) of
                Inl e \<Rightarrow> Inl e
              | Inr th \<Rightarrow>
                  (case name metric of
                     None \<Rightarrow> Inl AttributeError
                   | Some n \<Rightarrow> Inr (th @ split CHR '':'' n)))))"

section \<open>Example values\<close>

text \<open>
  The inputs of the examples of the node session: a topic of identity \<open>(G, N)\<close>, two
  metrics, a session that knows no identity, the same session after a first publish of
  \<open>m1\<close> at time \<open>1\<close>, and a connected session that knows two identities.
\<close>

definition topic_G_N :: Topic where
  "topic_G_N =
     \<lparr>message_type = NDATA, group_id = Some ''G'', edge_node_id = Some ''N'',
      device_id = None, sparkplug_host_id = None, namespace = ''spBv1.0''\<rparr>"

definition metric_m1 :: Metric where
  "metric_m1 =
     Metric_default\<lparr>name := Some ''m1'', dtype := INT32,
                     metric_value := Some (Atom (AInt 1))\<rparr>"

definition metric_m2 :: Metric where
  "metric_m2 =
     Metric_default\<lparr>name := Some ''m2'', dtype := INT32,
                     metric_value := Some (Atom (AInt 2))\<rparr>"

definition session_fresh :: DataOpsNode where
  "session_fresh =
     \<lparr>node_id = ''n1'', client = [], connected = True, published_metrics = [],
      retain_birth_certificates = True\<rparr>"

definition session_born :: DataOpsNode where
  "session_born =
     \<lparr>node_id = ''n1'',
      client = [Publish (nbirth_message (Some ''G'') (Some ''N'')
                           (Birth Node 1 0 [metric_m1]) True) (Some True)],
      connected = True,
      published_metrics = [((Some ''G'', Some ''N''), [(Some ''m1'', metric_m1)])],
      retain_birth_certificates = True\<rparr>"

definition session_two :: DataOpsNode where
  "session_two =
     \<lparr>node_id = ''n1'', client = [], connected = True,
      published_metrics =
        [((Some ''G'', Some ''N''), [(Some ''m1'', metric_m1)]),
         ((Some ''G'', Some ''M''), [(Some ''m2'', metric_m2)])],
      retain_birth_certificates = False\<rparr>"

section \<open>Properties\<close>

subsection \<open>Comprehensions that may raise\<close>

lemma traverse_KeyError:
  "\<exists>x\<in>set xs. f x = Inl KeyError \<Longrightarrow>
   (\<And>x e. x \<in> set xs \<Longrightarrow> f x = Inl e \<Longrightarrow> e = KeyError) \<Longrightarrow>
   traverse f xs = Inl KeyError"
proof (induction xs)
  case Nil
  then show ?case by simp
next
  case (Cons x xs)
  show ?case
  proof (cases "f x")
    case (Inl e)
    then have "e = KeyError" using Cons.prems(2)[of x e] by simp
    with Inl show ?thesis by simp
  next
    case (Inr y)
    with Cons.prems(1) have ex: "\<exists>x\<in>set xs. f x = Inl KeyError" by auto
    have "traverse f xs = Inl KeyError"
      using Cons.IH[OF ex] Cons.prems(2) by auto
    with Inr show ?thesis by simp
  qed
qed

subsection \<open>Birth validation\<close>

lemma Birth_post_init_iff:
  "Birth_post_init ms =
     (if \<exists>m\<in>set ms. name m = None \<or> dtype m = UNKNOWN then Inl ValueError else Inr ())"
  by (induction ms) auto

text \<open>
  C3, as the claim states it, fails: a metric whose name is the empty string passes the
  validation, which tests the name against \<open>None\<close> only.
\<close>

theorem Birth_init_accepts_empty_name:
  "Birth_init Node 0 0 [Metric_default\<lparr>name := Some [], dtype := INT32\<rparr>] =
     Inr (Birth Node 0 0 [Metric_default\<lparr>name := Some [], dtype := INT32\<rparr>])"
  by (simp add: Birth_init_def Metric_default_def)

text \<open>
  C3, amended: constructing a birth (\<open>NBirth\<close> or \<open>DBirth\<close>) from a metric list in which
  some metric has no name (\<open>None\<close>) or has the datatype \<open>UNKNOWN\<close> raises \<open>ValueError\<close>;
  constructing it from a list in which every metric has a name (the empty string
  included) and a datatype other than \<open>UNKNOWN\<close> succeeds and gives the birth of that list.
\<close>

theorem Birth_init_validates:
  "((\<exists>m\<in>set ms. name m = None \<or> dtype m = UNKNOWN) \<longrightarrow>
      Birth_init k ts sq ms = Inl ValueError) \<and>
   ((\<forall>m\<in>set ms. name m \<noteq> None \<and> dtype m \<noteq> UNKNOWN) \<longrightarrow>
      Birth_init k ts sq ms = Inr (Birth k ts sq ms))"
  by (auto simp: Birth_init_def Birth_post_init_iff)

theorem Birth_init_validates_witness:
  "Birth_init Device 1 2 [Metric_default\<lparr>dtype := INT32\<rparr>] = Inl ValueError \<and>
   Birth_init Device 1 2 [Metric_default\<lparr>name := Some ''a''\<rparr>] = Inl ValueError \<and>
   Birth_init Device 1 2 [Metric_default\<lparr>name := Some ''a'', dtype := INT32\<rparr>] =
     Inr (Birth Device 1 2 [Metric_default\<lparr>name := Some ''a'', dtype := INT32\<rparr>])"
proof -
  have a: "\<exists>m\<in>set [Metric_default\<lparr>dtype := INT32\<rparr>]. name m = None \<or> dtype m = UNKNOWN"
    by (simp add: Metric_default_def)
  have b: "\<exists>m\<in>set [Metric_default\<lparr>name := Some ''a''\<rparr>]. name m = None \<or> dtype m = UNKNOWN"
    by (simp add: Metric_default_def)
  have c: "\<forall>m\<in>set [Metric_default\<lparr>name := Some ''a'', dtype := INT32\<rparr>].
             name m \<noteq> None \<and> dtype m \<noteq> UNKNOWN"
    by simp
  note t = Birth_init_validates [of _ Device 1 2]
  show ?thesis
    using t [THEN conjunct1, THEN mp, OF a] t [THEN conjunct1, THEN mp, OF b]
      t [THEN conjunct2, THEN mp, OF c]
    by (intro conjI)
qed

subsection \<open>Node death\<close>

text \<open>
  C7: the claim is that decoding a node death whose timestamp field is absent gives the
  timestamp \<open>None\<close>, and that a timestamp that is present is returned. The code tests the
  presence the other way round: a timestamp that is present (here \<open>5\<close>) is dropped, and
  an absent one is read as the field's default \<open>0\<close>.
\<close>

theorem NDeath_decode_inverts_timestamp_presence:
  "NDeath_decode Metric_from_pb
     \<lparr>pb_payload_timestamp = Some 5,
      pb_metrics = [\<lparr>pb_name = Some ''bdSeq'', pb_alias = None, pb_timestamp = None,
                     pb_datatype = Some INT64, pb_is_historical = None,
                     pb_is_transient = None, pb_is_null = None, pb_metadata = None,
                     pb_properties = None, pb_value = Some (Atom (AInt 0))\<rparr>],
      pb_seq = None\<rparr> =
     Inr (NDeath None
            (Some (Metric_default\<lparr>name := Some ''bdSeq'', dtype := INT64,
                                   metric_value := Some (Atom (AInt 0))\<rparr>))) \<and>
   NDeath_decode Metric_from_pb
     \<lparr>pb_payload_timestamp = None,
      pb_metrics = [\<lparr>pb_name = Some ''bdSeq'', pb_alias = None, pb_timestamp = None,
                     pb_datatype = Some INT64, pb_is_historical = None,
                     pb_is_transient = None, pb_is_null = None, pb_metadata = None,
                     pb_properties = None, pb_value = Some (Atom (AInt 0))\<rparr>],
      pb_seq = None\<rparr> =
     Inr (NDeath (Some 0)
            (Some (Metric_default\<lparr>name := Some ''bdSeq'', dtype := INT64,
                                   metric_value := Some (Atom (AInt 0))\<rparr>)))"
  by (simp add: NDeath_decode_def Metric_from_pb_def Metric_default_def read_datatype_def
      read_uint_def)

subsection \<open>Round trip\<close>

lemma pb_roundtrip:
  "list_all (pb_faithful to_pb from_pb incl) ms \<Longrightarrow>
     \<exists>pms. traverse (to_pb incl) ms = Inr pms \<and> traverse from_pb pms = Inr ms"
proof (induction ms)
  case Nil
  then show ?case by simp
next
  case (Cons m ms)
  then obtain pms where t: "traverse (to_pb incl) ms = Inr pms" "traverse from_pb pms = Inr ms"
    by auto
  from Cons.prems obtain p where p: "to_pb incl m = Inr p" "from_pb p = Inr m"
    by (auto simp: pb_faithful_def split: sum.splits)
  show ?case using t p by simp
qed

lemma bytes_of_list_of_bytes:
  "traverse byte_of_atom (map (\<lambda>b. AInt (uint b)) bs) = Inr bs"
proof (induction bs)
  case Nil
  then show ?case by simp
next
  case (Cons b bs)
  have "uint b < 256" using uint_bounded[of b] by simp
  with Cons show ?case by simp
qed

lemma scalar_not_special:
  "scalar_dtype d \<Longrightarrow> d \<noteq> UNKNOWN \<and> d \<noteq> BYTES"
  by (auto simp: scalar_dtype_def)

lemma metric_json_roundtrip:
  assumes "json_faithful m"
  shows "\<exists>j. metric_to_json m incl = Inr j \<and> json_serializable j \<and> metric_from_json j = Inr m"
proof (cases "metric_value m")
  case None
  then show ?thesis
    by (simp add: metric_to_json_def metric_from_json_def Metric_default_def read_datatype_def
        json_serializable_def)
next
  case (Some v)
  show ?thesis
  proof (cases v)
    case (Bytes bs)
    with Some assms have h: "\<not> is_null m" "dtype m = BYTES"
      by (auto simp: json_faithful_def)
    show ?thesis using Some Bytes h
      by (simp add: metric_to_json_def metric_from_json_def Metric_default_def read_datatype_def
          value_to_json_def value_from_json_def scalar_dtype_def bytes_of_list_of_bytes
          json_serializable_def)
  next
    case (Atom a)
    with Some assms have h: "\<not> is_null m" "scalar_dtype (dtype m)"
      by (auto simp: json_faithful_def)
    show ?thesis using Some Atom h scalar_not_special[OF h(2)]
      by (simp add: metric_to_json_def metric_from_json_def Metric_default_def read_datatype_def
          value_to_json_def value_from_json_def json_serializable_def)
  next
    case (List xs)
    with Some assms have h: "\<not> is_null m" "scalar_dtype (dtype m)"
      by (auto simp: json_faithful_def)
    show ?thesis using Some List h scalar_not_special[OF h(2)]
      by (simp add: metric_to_json_def metric_from_json_def Metric_default_def read_datatype_def
          value_to_json_def value_from_json_def json_serializable_def)
  qed
qed

lemma json_roundtrip:
  "list_all json_faithful ms \<Longrightarrow>
     \<exists>jms. traverse (\<lambda>m. metric_to_json m incl) ms = Inr jms \<and> list_all json_serializable jms
        \<and> traverse metric_from_json jms = Inr ms"
proof (induction ms)
  case Nil
  then show ?case by simp
next
  case (Cons m ms)
  then obtain jms where t: "traverse (\<lambda>m. metric_to_json m incl) ms = Inr jms"
     "list_all json_serializable jms" "traverse metric_from_json jms = Inr ms"
    by auto
  from Cons.prems have "json_faithful m" by simp
  from metric_json_roundtrip[OF this, of incl] obtain j where
    j: "metric_to_json m incl = Inr j" "json_serializable j" "metric_from_json j = Inr m"
    by blast
  show ?case using t j by simp
qed

lemma base_roundtrip_pb:
  assumes "uint64 ts" "case sq of None \<Rightarrow> True | Some q \<Rightarrow> uint64 q"
    "list_all (pb_faithful to_pb from_pb incl) ms"
  shows "\<exists>r. BasePayload_encode False to_pb incl ts sq ms = Inr r \<and>
              BasePayload_decode False from_pb cls None r = construct cls ts sq (Some ms)"
proof -
  from pb_roundtrip[OF assms(3)] obtain pms where
    t: "traverse (to_pb incl) ms = Inr pms" "traverse from_pb pms = Inr ms" by blast
  show ?thesis using assms(1,2) t
    by (auto simp: BasePayload_encode_def BasePayload_decode_def encode_protobuf_def
        decode_protobuf_def set_uint64_def uint64_def read_uint_def split: option.splits)
qed

lemma base_roundtrip_json:
  assumes "list_all json_faithful ms"
  shows "\<exists>r. BasePayload_encode True to_pb incl ts sq ms = Inr r \<and>
              BasePayload_decode True from_pb cls None r = construct cls ts sq (Some ms)"
proof -
  from json_roundtrip[OF assms, of incl] obtain jms where
    t: "traverse (\<lambda>m. metric_to_json m incl) ms = Inr jms" "list_all json_serializable jms"
       "traverse metric_from_json jms = Inr ms" by blast
  show ?thesis using t
    by (simp add: BasePayload_encode_def BasePayload_decode_def payload_to_json_def
        payload_from_json_def)
qed

text \<open>
  The payloads that do come back, under the conditions of \<open>wire_ok\<close>: births, data,
  commands, device deaths and states.
\<close>

lemma decode_encode_wire_ok:
  assumes "wire_ok use_json to_pb from_pb include_dtypes x"
  shows "decode_encode use_json to_pb from_pb include_dtypes x = Inr x"
proof -
  have "\<exists>r. encode use_json to_pb include_dtypes x = Inr r \<and>
              decode use_json from_pb (cls_of x) None r = Inr x"
  proof (cases x)
    case (Birth k ts sq ms)
    with assms have v: "Birth_post_init ms = Inr ()" by simp
    have c: "construct (BirthCls k) ts (Some sq) (Some ms) = Inr x"
      using v Birth by (simp add: Birth_init_def)
    show ?thesis
    proof (cases use_json)
      case True
      with assms Birth have "list_all json_faithful ms" by simp
      from base_roundtrip_json[OF this, of to_pb True ts "Some sq" from_pb "BirthCls k"]
      show ?thesis using True Birth c by simp
    next
      case False
      with assms Birth have "uint64 ts" "uint64 sq" "list_all (pb_faithful to_pb from_pb True) ms"
        by simp_all
      from base_roundtrip_pb[of ts "Some sq" to_pb from_pb True ms "BirthCls k"] this
      show ?thesis using False Birth c by simp
    qed
  next
    case (Data k ts sq ms)
    show ?thesis
    proof (cases use_json)
      case True
      with assms Data have "list_all json_faithful ms" by simp
      from base_roundtrip_json[OF this, of to_pb include_dtypes ts "Some sq" from_pb "DataCls k"]
      show ?thesis using True Data by simp
    next
      case False
      with assms Data have "uint64 ts" "uint64 sq"
        "list_all (pb_faithful to_pb from_pb include_dtypes) ms"
        by simp_all
      from base_roundtrip_pb[of ts "Some sq" to_pb from_pb include_dtypes ms "DataCls k"] this
      show ?thesis using False Data by simp
    qed
  next
    case (Cmd k ts ms)
    show ?thesis
    proof (cases use_json)
      case True
      with assms Cmd have "list_all json_faithful ms" by simp
      from base_roundtrip_json[OF this, of to_pb include_dtypes ts None from_pb "CmdCls k"]
      show ?thesis using True Cmd by simp
    next
      case False
      with assms Cmd have "uint64 ts" "list_all (pb_faithful to_pb from_pb include_dtypes) ms"
        by simp_all
      from base_roundtrip_pb[of ts None to_pb from_pb include_dtypes ms "CmdCls k"] this
      show ?thesis using False Cmd by simp
    qed
  next
    case (NDeath ts m)
    with assms show ?thesis by simp
  next
    case (DDeath ts sq)
    with assms show ?thesis
      by (simp add: DDeath_encode_def DDeath_decode_def set_uint64_def uint64_def read_uint_def)
  next
    case (State ts b)
    then show ?thesis by (simp add: State_encode_def State_decode_def)
  qed
  then show ?thesis by (auto simp: decode_encode_def)
qed

lemma node_death_never_round_trips:
  "decode_encode use_json to_pb from_pb include_dtypes (NDeath ts m) \<noteq> Inr (NDeath ts m)"
  by (cases ts; cases m)
     (auto simp: decode_encode_def NDeath_encode_def NDeath_decode_def read_uint_def
       split: sum.splits option.splits list.splits)

text \<open>
  C1: the claim is that \<open>decode(encode(x)) = x\<close> for every payload variant under both
  codecs. The code breaks it for node deaths, by the inverted presence test of
  \<open>NDeath.decode\<close>: a node death with the timestamp \<open>5\<close> comes back with the timestamp
  \<open>None\<close>, and one without timestamp comes back with the timestamp \<open>0\<close>; no node death
  comes back as it was (\<open>node_death_never_round_trips\<close>). Under the text codec the chain
  of datatypes in \<open>metric_to_json\<close> has no branch for \<open>DATETIME\<close> (nor for \<open>TEXT\<close>, \<open>UUID\<close>
  or \<open>FILE\<close>): the value of such a metric is not written and comes back as \<open>None\<close>.
\<close>

theorem decode_encode_not_identity:
  "decode_encode False Metric_to_pb Metric_from_pb True
     (NDeath (Some 5)
        (Some (Metric_default\<lparr>name := Some ''bdSeq'', dtype := INT64,
                               metric_value := Some (Atom (AInt 0))\<rparr>))) =
     Inr (NDeath None
            (Some (Metric_default\<lparr>name := Some ''bdSeq'', dtype := INT64,
                                   metric_value := Some (Atom (AInt 0))\<rparr>))) \<and>
   decode_encode False Metric_to_pb Metric_from_pb True
     (NDeath None
        (Some (Metric_default\<lparr>name := Some ''bdSeq'', dtype := INT64,
                               metric_value := Some (Atom (AInt 0))\<rparr>))) =
     Inr (NDeath (Some 0)
            (Some (Metric_default\<lparr>name := Some ''bdSeq'', dtype := INT64,
                                   metric_value := Some (Atom (AInt 0))\<rparr>))) \<and>
   decode_encode True Metric_to_pb Metric_from_pb True
     (Data Node 1 0 [Metric_default\<lparr>name := Some ''t'', dtype := DATETIME,
                                      metric_value := Some (Atom (AInt 1700000000000))\<rparr>]) =
     Inr (Data Node 1 0 [Metric_default\<lparr>name := Some ''t'', dtype := DATETIME,
                                          metric_value := None\<rparr>])"
  by (simp add: decode_encode_def NDeath_encode_def NDeath_decode_def
      BasePayload_encode_def BasePayload_decode_def
      payload_to_json_def payload_from_json_def
      metric_to_json_def metric_from_json_def value_to_json_def value_from_json_def
      scalar_dtype_def json_serializable_def Metric_to_pb_def Metric_from_pb_def
      Metric_default_def set_uint64_def read_uint_def read_datatype_def)

subsection \<open>Resolution against a birth\<close>

lemma resolve_pb_Birth:
  "resolve_pb (Birth kb tsb sqb bms) m = Inl e \<Longrightarrow> e = KeyError \<and> pb_unresolvable bms m"
  by (auto simp: resolve_pb_def pb_unresolvable_def pb_resolved_name_def read_str_def
      read_datatype_def split: if_splits option.splits sum.splits)

lemma resolve_pb_unresolvable:
  "pb_unresolvable bms m \<Longrightarrow> resolve_pb (Birth kb tsb sqb bms) m = Inl KeyError"
  by (auto simp: resolve_pb_def pb_unresolvable_def pb_resolved_name_def read_str_def
      read_datatype_def split: if_splits option.splits sum.splits)

lemma get_dtype_Birth_error:
  "get_dtype (Birth kb tsb sqb bms) n = Inl e \<Longrightarrow> e = KeyError"
  by (cases n) (auto split: option.splits)

lemma resolve_json_Birth:
  "resolve_json (Birth kb tsb sqb bms) m = Inl e \<Longrightarrow> e = KeyError"
  by (auto simp: resolve_json_def split: if_splits option.splits sum.splits
      dest: get_dtype_Birth_error)

lemma resolve_json_unresolvable:
  "json_unresolvable bms m \<Longrightarrow> resolve_json (Birth kb tsb sqb bms) m = Inl KeyError"
  by (auto simp: resolve_json_def json_unresolvable_def json_resolved_name_def
      split: if_splits option.splits sum.splits)

text \<open>
  C2: the claim is that a data payload containing \<open>{alias: 1, value: 5}\<close>, with no name
  and no datatype, decoded against a birth with the metric
  \<open>{name: "a", alias: 1, datatype: INT32}\<close>, yields the metric
  \<open>{name: "a", datatype: INT32, value: 5}\<close>. The binary decoder does so. The text
  decoder resolves the name and the datatype, but \<open>metric_from_json\<close> has dropped the
  value before, because the JSON object has no key \<open>datatype\<close>: the metric comes back
  without a value.
\<close>

theorem json_decode_drops_value_of_aliased_metric:
  "decode False Metric_from_pb (Base (DataCls Node))
     (Some (Birth Node 1 0 [Metric_default\<lparr>name := Some ''a'', metric_alias := Some 1,
                                             dtype := INT32\<rparr>]))
     (Protobuf \<lparr>pb_payload_timestamp = Some 2,
                pb_metrics = [\<lparr>pb_name = None, pb_alias = Some 1, pb_timestamp = None,
                               pb_datatype = None, pb_is_historical = None,
                               pb_is_transient = None, pb_is_null = None,
                               pb_metadata = None, pb_properties = None,
                               pb_value = Some (Atom (AInt 5))\<rparr>],
                pb_seq = Some 0\<rparr>) =
     Inr (Data Node 2 0 [Metric_default\<lparr>name := Some ''a'', metric_alias := Some 1,
                                          dtype := INT32,
                                          metric_value := Some (Atom (AInt 5))\<rparr>]) \<and>
   decode True Metric_from_pb (Base (DataCls Node))
     (Some (Birth Node 1 0 [Metric_default\<lparr>name := Some ''a'', metric_alias := Some 1,
                                             dtype := INT32\<rparr>]))
     (Json \<lparr>jp_timestamp = Some 2, jp_seq = Some 0,
            jp_metrics = Some [\<lparr>j_name = None, j_alias = Some 1, j_timestamp = None,
                                j_datatype = None, j_is_historical = None,
                                j_is_transient = None, j_is_null = None,
                                j_metadata = None, j_properties = None,
                                j_value = Some (Atom (AInt 5))\<rparr>],
            jp_bd_seq_metric = None, jp_online = None\<rparr>) =
     Inr (Data Node 2 0 [Metric_default\<lparr>name := Some ''a'', metric_alias := Some 1,
                                          dtype := INT32, metric_value := None\<rparr>])"
  by (simp add: BasePayload_decode_def decode_protobuf_def payload_from_json_def
      resolve_pb_def resolve_json_def metric_from_json_def value_from_json_def
      Metric_from_pb_def Metric_default_def names_mapping_def dtypes_mapping_def
      read_str_def read_uint_def read_datatype_def)

text \<open>
  C4, as the claim states it, fails: a metric that carries an alias absent from the
  birth's alias-to-name map (here \<open>99\<close>) but has a name decodes without error, under
  both codecs, because the alias is looked up only when the name is missing.
\<close>

theorem named_metric_with_unknown_alias_decodes:
  "names_mapping [Metric_default\<lparr>name := Some ''a'', metric_alias := Some 1,
                                  dtype := INT32\<rparr>] 99 = None \<and>
   decode False Metric_from_pb (Base (DataCls Node))
     (Some (Birth Node 1 0 [Metric_default\<lparr>name := Some ''a'', metric_alias := Some 1,
                                             dtype := INT32\<rparr>]))
     (Protobuf \<lparr>pb_payload_timestamp = Some 2,
                pb_metrics = [\<lparr>pb_name = Some ''a'', pb_alias = Some 99,
                               pb_timestamp = None, pb_datatype = None,
                               pb_is_historical = None, pb_is_transient = None,
                               pb_is_null = None, pb_metadata = None,
                               pb_properties = None, pb_value = Some (Atom (AInt 5))\<rparr>],
                pb_seq = Some 0\<rparr>) =
     Inr (Data Node 2 0 [Metric_default\<lparr>name := Some ''a'', metric_alias := Some 99,
                                          dtype := INT32,
                                          metric_value := Some (Atom (AInt 5))\<rparr>]) \<and>
   decode True Metric_from_pb (Base (DataCls Node))
     (Some (Birth Node 1 0 [Metric_default\<lparr>name := Some ''a'', metric_alias := Some 1,
                                             dtype := INT32\<rparr>]))
     (Json \<lparr>jp_timestamp = Some 2, jp_seq = Some 0,
            jp_metrics = Some [\<lparr>j_name = Some ''a'', j_alias = Some 99, j_timestamp = None,
                                j_datatype = Some INT32, j_is_historical = None,
                                j_is_transient = None, j_is_null = None,
                                j_metadata = None, j_properties = None,
                                j_value = Some (Atom (AInt 5))\<rparr>],
            jp_bd_seq_metric = None, jp_online = None\<rparr>) =
     Inr (Data Node 2 0 [Metric_default\<lparr>name := Some ''a'', metric_alias := Some 99,
                                          dtype := INT32,
                                          metric_value := Some (Atom (AInt 5))\<rparr>])"
  by (simp add: BasePayload_decode_def decode_protobuf_def payload_from_json_def
      resolve_pb_def resolve_json_def metric_from_json_def value_from_json_def
      scalar_dtype_def Metric_from_pb_def Metric_default_def names_mapping_def
      dtypes_mapping_def read_str_def read_uint_def read_datatype_def)

text \<open>
  C4, amended: for every data or command payload decoded against a birth, if some metric
  that lacks a name has an alias absent from the birth's alias-to-name map, or some
  metric whose datatype is \<open>UNKNOWN\<close> has a resolved name absent from the birth's
  name-to-datatype map, the decode raises \<open>KeyError\<close> (the spec's ResolutionError); no
  default is substituted. Under the binary codec the alias of a metric that has none is
  read as \<open>0\<close>; under the text codec the condition is on the metrics as
  \<open>metric_from_json\<close> returns them, and a metric with neither name nor alias and the
  datatype \<open>UNKNOWN\<close> raises as well.
\<close>

theorem decode_unresolvable_raises:
  "((c = DataCls k \<or> c = CmdCls k) \<and> (\<exists>m\<in>set (pb_metrics w). pb_unresolvable bms m) \<longrightarrow>
      decode False from_pb (Base c) (Some (Birth kb tsb sqb bms)) (Protobuf w) =
        Inl KeyError) \<and>
   ((c = DataCls k \<or> c = CmdCls k) \<and> jp_timestamp d = Some ts \<and> jp_metrics d = Some jms \<and>
      traverse metric_from_json jms = Inr ms \<and> (\<exists>m\<in>set ms. json_unresolvable bms m) \<longrightarrow>
      decode True from_pb (Base c) (Some (Birth kb tsb sqb bms)) (Json d) = Inl KeyError)"
proof (intro conjI impI)
  assume a: "(c = DataCls k \<or> c = CmdCls k) \<and>
    (\<exists>m\<in>set (pb_metrics w). pb_unresolvable bms m)"
  then have "\<exists>m\<in>set (pb_metrics w). resolve_pb (Birth kb tsb sqb bms) m = Inl KeyError"
    using resolve_pb_unresolvable by blast
  then have "traverse (resolve_pb (Birth kb tsb sqb bms)) (pb_metrics w) = Inl KeyError"
    using resolve_pb_Birth by (intro traverse_KeyError) blast+
  with a show
    "decode False from_pb (Base c) (Some (Birth kb tsb sqb bms)) (Protobuf w) = Inl KeyError"
    by (auto simp: BasePayload_decode_def decode_protobuf_def)
next
  assume a: "(c = DataCls k \<or> c = CmdCls k) \<and> jp_timestamp d = Some ts \<and>
    jp_metrics d = Some jms \<and> traverse metric_from_json jms = Inr ms \<and>
    (\<exists>m\<in>set ms. json_unresolvable bms m)"
  then have "\<exists>m\<in>set ms. resolve_json (Birth kb tsb sqb bms) m = Inl KeyError"
    using resolve_json_unresolvable by blast
  then have "traverse (resolve_json (Birth kb tsb sqb bms)) ms = Inl KeyError"
    using resolve_json_Birth by (intro traverse_KeyError) blast+
  with a show
    "decode True from_pb (Base c) (Some (Birth kb tsb sqb bms)) (Json d) = Inl KeyError"
    by (auto simp: BasePayload_decode_def payload_from_json_def)
qed

theorem decode_unresolvable_raises_witness:
  "decode False Metric_from_pb (Base (DataCls Node))
     (Some (Birth Node 1 0 [Metric_default\<lparr>name := Some ''a'', metric_alias := Some 1,
                                             dtype := INT32\<rparr>]))
     (Protobuf \<lparr>pb_payload_timestamp = Some 2,
                pb_metrics = [\<lparr>pb_name = None, pb_alias = Some 99, pb_timestamp = None,
                               pb_datatype = None, pb_is_historical = None,
                               pb_is_transient = None, pb_is_null = None,
                               pb_metadata = None, pb_properties = None,
                               pb_value = Some (Atom (AInt 5))\<rparr>],
                pb_seq = Some 0\<rparr>) = Inl KeyError \<and>
   decode True Metric_from_pb (Base (CmdCls Device))
     (Some (Birth Node 1 0 [Metric_default\<lparr>name := Some ''a'', metric_alias := Some 1,
                                             dtype := INT32\<rparr>]))
     (Json \<lparr>jp_timestamp = Some 2, jp_seq = None,
            jp_metrics = Some [\<lparr>j_name = Some ''b'', j_alias = None, j_timestamp = None,
                                j_datatype = None, j_is_historical = None,
                                j_is_transient = None, j_is_null = None,
                                j_metadata = None, j_properties = None,
                                j_value = None\<rparr>],
            jp_bd_seq_metric = None, jp_online = None\<rparr>) = Inl KeyError"
proof -
  let ?bms = "[Metric_default\<lparr>name := Some ''a'', metric_alias := Some 1, dtype := INT32\<rparr>]"
  let ?w = "\<lparr>pb_payload_timestamp = Some 2,
                pb_metrics = [\<lparr>pb_name = None, pb_alias = Some 99, pb_timestamp = None,
                               pb_datatype = None, pb_is_historical = None,
                               pb_is_transient = None, pb_is_null = None,
                               pb_metadata = None, pb_properties = None,
                               pb_value = Some (Atom (AInt 5))\<rparr>],
                pb_seq = Some 0\<rparr>"
  let ?jm = "\<lparr>j_name = Some ''b'', j_alias = None, j_timestamp = None,
                                j_datatype = None, j_is_historical = None,
                                j_is_transient = None, j_is_null = None,
                                j_metadata = None, j_properties = None,
                                j_value = None\<rparr>"
  let ?d = "\<lparr>jp_timestamp = Some 2, jp_seq = None, jp_metrics = Some [?jm],
            jp_bd_seq_metric = None, jp_online = None\<rparr>"
  let ?m = "Metric_default\<lparr>name := Some ''b''\<rparr>"
  have a: "(DataCls Node = DataCls Node \<or> DataCls Node = CmdCls Node) \<and>
    (\<exists>m\<in>set (pb_metrics ?w). pb_unresolvable ?bms m)"
    by (simp add: pb_unresolvable_def pb_resolved_name_def names_mapping_def
        Metric_default_def read_str_def read_uint_def)
  have b: "(CmdCls Device = DataCls Device \<or> CmdCls Device = CmdCls Device) \<and>
    jp_timestamp ?d = Some 2 \<and> jp_metrics ?d = Some [?jm] \<and>
    traverse metric_from_json [?jm] = Inr [?m] \<and> (\<exists>m\<in>set [?m]. json_unresolvable ?bms m)"
    by (simp add: json_unresolvable_def json_resolved_name_def dtypes_mapping_def
        metric_from_json_def Metric_default_def read_datatype_def)
  show ?thesis
    using decode_unresolvable_raises
            [where c = "DataCls Node" and k = Node and w = ?w and bms = ?bms,
             THEN conjunct1, THEN mp, OF a]
          decode_unresolvable_raises
            [where c = "CmdCls Device" and k = Device and d = ?d and bms = ?bms and ts = 2
               and jms = "[?jm]" and ms = "[?m]",
             THEN conjunct2, THEN mp, OF b]
    by (intro conjI)
qed

subsection \<open>The node session\<close>

lemma emitted_append: "client s' = client s @ xs \<Longrightarrow> emitted s s' = xs"
  by (simp add: emitted_def)

lemma find_snoc:
  "find P (xs @ [y]) = (case find P xs of None \<Rightarrow> (if P y then Some y else None) | Some x \<Rightarrow> Some x)"
  by (induction xs) auto

lemma map_of_merge_metrics:
  "map_of (merge_metrics d ms) n =
     (case find (\<lambda>m. name m = n) (rev ms) of Some m \<Rightarrow> Some m | None \<Rightarrow> map_of d n)"
  unfolding merge_metrics_def
proof (induction ms arbitrary: d)
  case Nil
  then show ?case by simp
next
  case (Cons m ms)
  show ?case
    by (simp add: Cons.IH find_snoc update_conv' split: option.splits)
qed

lemma publish_new:
  assumes "map_of (published_metrics self) (group_id tp, edge_node_id tp) = None"
  shows "publish self tp metrics q r now =
     (case Birth_init Node now 0 metrics of
        Inl err \<Rightarrow>
          (Some err,
           self\<lparr>published_metrics :=
                  AList.update (group_id tp, edge_node_id tp) (merge_metrics [] metrics)
                    (published_metrics self)\<rparr>)
      | Inr p \<Rightarrow>
          (None,
           self\<lparr>published_metrics :=
                  AList.update (group_id tp, edge_node_id tp) (merge_metrics [] metrics)
                    (published_metrics self),
                client := client self @
                  [Publish (nbirth_message (group_id tp) (edge_node_id tp) p
                              (retain_birth_certificates self)) (Some True)]\<rparr>))"
  using assms
  by (auto simp: publish_def publish_nbirth_def client_publish_def nbirth_message_def
      Birth_init_def split: sum.splits)

lemma publish_known:
  assumes "map_of (published_metrics self) (group_id tp, edge_node_id tp) = Some snapshot"
  shows "publish self tp metrics q r now =
     (None,
      self\<lparr>published_metrics :=
             AList.update (group_id tp, edge_node_id tp) (merge_metrics snapshot metrics)
               (published_metrics self),
           client := client self @
             [Publish \<lparr>topic = tp, payload = Data Node now 0 metrics, qos = q, retain = r\<rparr>
                (Some True)]\<rparr>)"
  using assms by (simp add: publish_def client_publish_def)

text \<open>
  C5, as the claim states it, fails: a first publish whose metric has the datatype
  \<open>UNKNOWN\<close> stores the snapshot and then raises in the constructor of the birth; no
  message is handed to the transport.
\<close>

theorem first_publish_can_raise_without_birth:
  "publish
     \<lparr>node_id = ''n1'', client = [], connected = True, published_metrics = [],
      retain_birth_certificates = False\<rparr>
     \<lparr>message_type = NDATA, group_id = Some ''G'', edge_node_id = Some ''N'',
      device_id = None, sparkplug_host_id = None, namespace = ''spBv1.0''\<rparr>
     [Metric_default\<lparr>name := Some ''a'', metric_value := Some (Atom (AInt 5))\<rparr>]
     AT_MOST_ONCE False 7 =
   (Some ValueError,
    \<lparr>node_id = ''n1'', client = [], connected = True,
     published_metrics =
       [((Some ''G'', Some ''N''),
         [(Some ''a'',
           Metric_default\<lparr>name := Some ''a'', metric_value := Some (Atom (AInt 5))\<rparr>)])],
     retain_birth_certificates = False\<rparr>)"
  by (simp add: publish_def publish_nbirth_def Birth_init_def merge_metrics_def
      Metric_default_def)

text \<open>
  C5, amended: for every publish to the node session, if the topic's (group, node)
  identity has no entry yet and every metric has a name and a datatype other than
  \<open>UNKNOWN\<close>, the session stores the given metrics, by name, as that identity's snapshot
  and hands exactly one message to the transport, a birth with the given metrics; a
  publish to an identity without entry never hands over anything but a birth. If the
  identity has an entry, the session merges the given metrics into the stored snapshot
  by name, the last write winning, and hands over one data message that carries exactly
  the metrics of this call. The entries of other identities are unchanged.
\<close>

theorem publish_birth_then_data:
  "(map_of (published_metrics self) (group_id tp, edge_node_id tp) = None \<and>
    (\<forall>m\<in>set metrics. name m \<noteq> None \<and> dtype m \<noteq> UNKNOWN) \<longrightarrow>
      (\<exists>self'. publish self tp metrics q r now = (None, self') \<and>
         map_of (published_metrics self') =
           (map_of (published_metrics self))
             ((group_id tp, edge_node_id tp) \<mapsto> merge_metrics [] metrics) \<and>
         emitted self self' =
           [Publish (nbirth_message (group_id tp) (edge_node_id tp)
                       (Birth Node now 0 metrics) (retain_birth_certificates self))
              (Some True)])) \<and>
   (map_of (published_metrics self) (group_id tp, edge_node_id tp) = None \<longrightarrow>
      (\<forall>c\<in>set (emitted self (snd (publish self tp metrics q r now))).
         \<exists>m i. c = Publish m i \<and> message_type (topic m) = NBIRTH \<and>
           payload m = Birth Node now 0 metrics)) \<and>
   (map_of (published_metrics self) (group_id tp, edge_node_id tp) = Some snapshot \<longrightarrow>
      (\<exists>self'. publish self tp metrics q r now = (None, self') \<and>
         map_of (published_metrics self') =
           (map_of (published_metrics self))
             ((group_id tp, edge_node_id tp) \<mapsto> merge_metrics snapshot metrics) \<and>
         emitted self self' =
           [Publish \<lparr>topic = tp, payload = Data Node now 0 metrics, qos = q, retain = r\<rparr>
              (Some True)])) \<and>
   map_of (merge_metrics snapshot metrics) n =
     (case find (\<lambda>m. name m = n) (rev metrics) of
        Some m \<Rightarrow> Some m | None \<Rightarrow> map_of snapshot n)"
proof (intro conjI impI)
  assume a: "map_of (published_metrics self) (group_id tp, edge_node_id tp) = None \<and>
    (\<forall>m\<in>set metrics. name m \<noteq> None \<and> dtype m \<noteq> UNKNOWN)"
  then have b: "Birth_init Node now 0 metrics = Inr (Birth Node now 0 metrics)"
    by (auto simp: Birth_init_def Birth_post_init_iff)
  show "\<exists>self'. publish self tp metrics q r now = (None, self') \<and>
         map_of (published_metrics self') =
           (map_of (published_metrics self))
             ((group_id tp, edge_node_id tp) \<mapsto> merge_metrics [] metrics) \<and>
         emitted self self' =
           [Publish (nbirth_message (group_id tp) (edge_node_id tp)
                       (Birth Node now 0 metrics) (retain_birth_certificates self))
              (Some True)]"
    using a b by (simp add: publish_new update_conv' emitted_def)
next
  assume a: "map_of (published_metrics self) (group_id tp, edge_node_id tp) = None"
  show "\<forall>c\<in>set (emitted self (snd (publish self tp metrics q r now))).
         \<exists>m i. c = Publish m i \<and> message_type (topic m) = NBIRTH \<and>
           payload m = Birth Node now 0 metrics"
    by (auto simp: publish_new[OF a] emitted_def nbirth_message_def Birth_init_def
        split: sum.splits)
next
  assume a: "map_of (published_metrics self) (group_id tp, edge_node_id tp) = Some snapshot"
  show "\<exists>self'. publish self tp metrics q r now = (None, self') \<and>
         map_of (published_metrics self') =
           (map_of (published_metrics self))
             ((group_id tp, edge_node_id tp) \<mapsto> merge_metrics snapshot metrics) \<and>
         emitted self self' =
           [Publish \<lparr>topic = tp, payload = Data Node now 0 metrics, qos = q, retain = r\<rparr>
              (Some True)]"
    by (simp add: publish_known[OF a] update_conv' emitted_def)
next
  show "map_of (merge_metrics snapshot metrics) n =
     (case find (\<lambda>m. name m = n) (rev metrics) of
        Some m \<Rightarrow> Some m | None \<Rightarrow> map_of snapshot n)"
    by (rule map_of_merge_metrics)
qed

theorem publish_birth_then_data_witness:
  "(\<exists>self'. publish session_fresh topic_G_N [metric_m1] EXACTLY_ONCE False 1 = (None, self') \<and>
      map_of (published_metrics self') =
        (map_of (published_metrics session_fresh))
          ((group_id topic_G_N, edge_node_id topic_G_N) \<mapsto> merge_metrics [] [metric_m1]) \<and>
      emitted session_fresh self' =
        [Publish (nbirth_message (group_id topic_G_N) (edge_node_id topic_G_N)
                    (Birth Node 1 0 [metric_m1]) (retain_birth_certificates session_fresh))
           (Some True)]) \<and>
   publish session_fresh topic_G_N [metric_m1] EXACTLY_ONCE False 1 = (None, session_born) \<and>
   (\<exists>self'. publish session_born topic_G_N [metric_m2] EXACTLY_ONCE False 2 = (None, self') \<and>
      map_of (published_metrics self') =
        (map_of (published_metrics session_born))
          ((group_id topic_G_N, edge_node_id topic_G_N) \<mapsto>
             merge_metrics [(Some ''m1'', metric_m1)] [metric_m2]) \<and>
      emitted session_born self' =
        [Publish \<lparr>topic = topic_G_N, payload = Data Node 2 0 [metric_m2],
                  qos = EXACTLY_ONCE, retain = False\<rparr> (Some True)]) \<and>
   merge_metrics [(Some ''m1'', metric_m1)] [metric_m2] =
     [(Some ''m1'', metric_m1), (Some ''m2'', metric_m2)]"
proof -
  have a: "map_of (published_metrics session_fresh)
             (group_id topic_G_N, edge_node_id topic_G_N) = None \<and>
    (\<forall>m\<in>set [metric_m1]. name m \<noteq> None \<and> dtype m \<noteq> UNKNOWN)"
    by (simp add: session_fresh_def metric_m1_def)
  have b: "map_of (published_metrics session_born)
             (group_id topic_G_N, edge_node_id topic_G_N) = Some [(Some ''m1'', metric_m1)]"
    by (simp add: session_born_def topic_G_N_def)
  have c: "merge_metrics [(Some ''m1'', metric_m1)] [metric_m2] =
     [(Some ''m1'', metric_m1), (Some ''m2'', metric_m2)]"
    by (simp add: merge_metrics_def metric_m2_def)
  have d: "publish session_fresh topic_G_N [metric_m1] EXACTLY_ONCE False 1 =
     (None, session_born)"
    by (simp add: publish_def publish_nbirth_def client_publish_def nbirth_message_def
        Birth_init_def merge_metrics_def session_fresh_def session_born_def topic_G_N_def
        metric_m1_def)
  show ?thesis
    using publish_birth_then_data [THEN conjunct1, THEN mp, OF a] d
      publish_birth_then_data [THEN conjunct2, THEN conjunct2, THEN conjunct1, THEN mp, OF b]
      c
    by (intro conjI)
qed

text \<open>
  C9: when a publish targets an identity without entry, the \<open>qos\<close> and \<open>retain\<close>
  arguments are ignored: the result is the same for any other pair, and every message
  handed to the transport is a birth with quality of service \<open>AT_MOST_ONCE\<close> and with
  \<open>retain\<close> equal to the session's \<open>retain_birth_certificates\<close>, which no publish
  changes. When the metrics are ones a birth accepts, exactly one such birth is handed
  over, for the topic's identity and with the given metrics. For an identity with an
  entry the data message carries the caller's \<open>qos\<close> and \<open>retain\<close>.
\<close>

theorem publish_birth_ignores_qos_retain:
  "(map_of (published_metrics self) (group_id tp, edge_node_id tp) = None \<longrightarrow>
      publish self tp metrics q r now = publish self tp metrics q' r' now \<and>
      (\<forall>c\<in>set (emitted self (snd (publish self tp metrics q r now))).
         \<exists>m. c = Publish m (Some True) \<and> message_type (topic m) = NBIRTH \<and>
           qos m = AT_MOST_ONCE \<and> retain m = retain_birth_certificates self)) \<and>
   (map_of (published_metrics self) (group_id tp, edge_node_id tp) = None \<and>
    (\<forall>m\<in>set metrics. name m \<noteq> None \<and> dtype m \<noteq> UNKNOWN) \<longrightarrow>
      (\<exists>m. emitted self (snd (publish self tp metrics q r now)) = [Publish m (Some True)] \<and>
         message_type (topic m) = NBIRTH \<and>
         group_id (topic m) = group_id tp \<and> edge_node_id (topic m) = edge_node_id tp \<and>
         payload m = Birth Node now 0 metrics \<and>
         qos m = AT_MOST_ONCE \<and> retain m = retain_birth_certificates self)) \<and>
   (map_of (published_metrics self) (group_id tp, edge_node_id tp) \<noteq> None \<longrightarrow>
      (\<exists>m. emitted self (snd (publish self tp metrics q r now)) = [Publish m (Some True)] \<and>
         payload m = Data Node now 0 metrics \<and> qos m = q \<and> retain m = r)) \<and>
   retain_birth_certificates (snd (publish self tp metrics q r now)) =
     retain_birth_certificates self"
proof (intro conjI impI)
  assume a: "map_of (published_metrics self) (group_id tp, edge_node_id tp) = None"
  show "publish self tp metrics q r now = publish self tp metrics q' r' now"
    by (simp add: publish_new[OF a])
  show "\<forall>c\<in>set (emitted self (snd (publish self tp metrics q r now))).
         \<exists>m. c = Publish m (Some True) \<and> message_type (topic m) = NBIRTH \<and>
           qos m = AT_MOST_ONCE \<and> retain m = retain_birth_certificates self"
    by (auto simp: publish_new[OF a] emitted_def nbirth_message_def split: sum.splits)
next
  assume a: "map_of (published_metrics self) (group_id tp, edge_node_id tp) = None \<and>
    (\<forall>m\<in>set metrics. name m \<noteq> None \<and> dtype m \<noteq> UNKNOWN)"
  then have n: "map_of (published_metrics self) (group_id tp, edge_node_id tp) = None"
    and b: "Birth_init Node now 0 metrics = Inr (Birth Node now 0 metrics)"
    by (auto simp: Birth_init_def Birth_post_init_iff)
  show "\<exists>m. emitted self (snd (publish self tp metrics q r now)) = [Publish m (Some True)] \<and>
         message_type (topic m) = NBIRTH \<and>
         group_id (topic m) = group_id tp \<and> edge_node_id (topic m) = edge_node_id tp \<and>
         payload m = Birth Node now 0 metrics \<and>
         qos m = AT_MOST_ONCE \<and> retain m = retain_birth_certificates self"
    by (simp add: publish_new[OF n] b emitted_def nbirth_message_def)
next
  assume "map_of (published_metrics self) (group_id tp, edge_node_id tp) \<noteq> None"
  then obtain snapshot where
    a: "map_of (published_metrics self) (group_id tp, edge_node_id tp) = Some snapshot"
    by auto
  show "\<exists>m. emitted self (snd (publish self tp metrics q r now)) = [Publish m (Some True)] \<and>
         payload m = Data Node now 0 metrics \<and> qos m = q \<and> retain m = r"
    by (simp add: publish_known[OF a] emitted_def)
next
  show "retain_birth_certificates (snd (publish self tp metrics q r now)) =
     retain_birth_certificates self"
    by (auto simp: publish_def publish_nbirth_def client_publish_def Let_def
        split: option.splits sum.splits)
qed

theorem publish_birth_ignores_qos_retain_witness:
  "publish session_fresh topic_G_N [metric_m1] EXACTLY_ONCE False 1 =
     publish session_fresh topic_G_N [metric_m1] AT_LEAST_ONCE True 1 \<and>
   (\<exists>m. emitted session_fresh
          (snd (publish session_fresh topic_G_N [metric_m1] EXACTLY_ONCE False 1)) =
          [Publish m (Some True)] \<and>
        message_type (topic m) = NBIRTH \<and>
        group_id (topic m) = group_id topic_G_N \<and>
        edge_node_id (topic m) = edge_node_id topic_G_N \<and>
        payload m = Birth Node 1 0 [metric_m1] \<and>
        qos m = AT_MOST_ONCE \<and> retain m = retain_birth_certificates session_fresh) \<and>
   retain_birth_certificates session_fresh = True \<and>
   (\<exists>m. emitted session_born
          (snd (publish session_born topic_G_N [metric_m2] EXACTLY_ONCE False 2)) =
          [Publish m (Some True)] \<and>
        payload m = Data Node 2 0 [metric_m2] \<and> qos m = EXACTLY_ONCE \<and> retain m = False)"
proof -
  have a: "map_of (published_metrics session_fresh)
             (group_id topic_G_N, edge_node_id topic_G_N) = None"
    by (simp add: session_fresh_def)
  have a': "map_of (published_metrics session_fresh)
             (group_id topic_G_N, edge_node_id topic_G_N) = None \<and>
    (\<forall>m\<in>set [metric_m1]. name m \<noteq> None \<and> dtype m \<noteq> UNKNOWN)"
    by (simp add: session_fresh_def metric_m1_def)
  have b: "map_of (published_metrics session_born)
             (group_id topic_G_N, edge_node_id topic_G_N) \<noteq> None"
    by (simp add: session_born_def topic_G_N_def)
  have f: "retain_birth_certificates session_fresh = True"
    by (simp add: session_fresh_def)
  show ?thesis
    using publish_birth_ignores_qos_retain [THEN conjunct1, THEN mp, OF a, THEN conjunct1]
      publish_birth_ignores_qos_retain [THEN conjunct2, THEN conjunct1, THEN mp, OF a']
      f
      publish_birth_ignores_qos_retain
        [THEN conjunct2, THEN conjunct2, THEN conjunct1, THEN mp, OF b]
    by (intro conjI)
qed

lemma unencodable_encode:
  "unencodable p = Some e \<Longrightarrow> encode use_json to_pb include_dtypes p = Inl e"
  by (induction p rule: unencodable.induct)
     (auto simp: NDeath_encode_def split: sum.splits)

lemma publish_ndeath_raises:
  "\<exists>e. publish_ndeath self g e' now =
     (Some e, self\<lparr>client := client self @ [Publish (ndeath_message g e' now) None]\<rparr>)"
  by (simp add: publish_ndeath_def client_publish_def ndeath_message_def split: sum.splits)

lemma disconnect_connected_known:
  assumes "connected self" "published_metrics self = (k, v) # items"
  shows "\<exists>e. disconnect self now =
     (Some e,
      self\<lparr>client := client self @ [Publish (ndeath_message (fst k) (snd k) (now k)) None]\<rparr>)"
proof -
  from publish_ndeath_raises[of self "fst k" "snd k" "now k"] obtain e where
    "publish_ndeath self (fst k) (snd k) (now k) =
     (Some e, self\<lparr>client := client self @ [Publish (ndeath_message (fst k) (snd k) (now k)) None]\<rparr>)"
    by blast
  then show ?thesis using assms by (simp add: disconnect_def)
qed

lemma disconnect_not_connected:
  "\<not> connected self \<Longrightarrow>
     disconnect self now = (None, self\<lparr>client := client self @ [Disconnect], connected := False\<rparr>)"
  by (simp add: disconnect_def)

text \<open>
  C6: the claim is that \<open>disconnect\<close> of a connected session hands one death per known
  identity to the transport, then invokes the transport's \<open>disconnect\<close> and clears the
  connected flag. The death that \<open>_publish_ndeath\<close> builds has \<open>None\<close> for its metric, so
  its \<open>encode\<close> raises when the transport is handed the first one
  (\<open>unencodable_encode\<close>, \<open>disconnect_connected_known\<close>): for a connected session that
  knows the identities \<open>(G, N)\<close> and \<open>(G, M)\<close>, \<open>disconnect\<close> ends with \<open>AttributeError\<close>
  after the call for \<open>(G, N)\<close>; the death of \<open>(G, M)\<close> is never handed over, the
  transport's \<open>disconnect\<close> is not invoked and the session is still connected. While
  disconnected no death is handed over (\<open>disconnect_not_connected\<close>).
\<close>

theorem disconnect_aborts_at_first_death:
  "disconnect session_two (\<lambda>k. 7) =
     (Some AttributeError,
      session_two\<lparr>client := [Publish (ndeath_message (Some ''G'') (Some ''N'') 7) None]\<rparr>) \<and>
   connected (snd (disconnect session_two (\<lambda>k. 7))) \<and>
   Disconnect \<notin> set (client (snd (disconnect session_two (\<lambda>k. 7)))) \<and>
   Publish (ndeath_message (Some ''G'') (Some ''M'') 7) None
     \<notin> set (client (snd (disconnect session_two (\<lambda>k. 7))))"
  by (simp add: disconnect_def publish_ndeath_def client_publish_def ndeath_message_def
      set_uint64_def session_two_def)

text \<open>
  C10: every message the node session hands to the transport during \<open>disconnect\<close> carries
  a node death whose birth-death-sequence metric is \<open>None\<close>, and \<open>encode\<close> of that payload
  fails, under either codec setting and whatever the metric conversion is. The same
  holds for the message of every call of \<open>_publish_ndeath\<close>, the only place where the
  session builds a node death.
\<close>

theorem disconnect_deaths_cannot_be_encoded:
  "(Publish m i \<in> set (emitted self (snd (disconnect self now))) \<longrightarrow>
      (\<exists>ts. payload m = NDeath (Some ts) None) \<and>
      isl (encode use_json to_pb include_dtypes (payload m))) \<and>
   emitted self (snd (publish_ndeath self g e t)) = [Publish (ndeath_message g e t) None] \<and>
   payload (ndeath_message g e t) = NDeath (Some t) None \<and>
   isl (encode use_json to_pb include_dtypes (payload (ndeath_message g e t)))"
proof (intro conjI impI)
  have enc: "\<And>ts. isl (encode use_json to_pb include_dtypes (NDeath (Some ts) None))"
    by (auto simp: NDeath_encode_def split: sum.splits)
  show "payload (ndeath_message g e t) = NDeath (Some t) None"
    by (simp add: ndeath_message_def)
  then show "isl (encode use_json to_pb include_dtypes (payload (ndeath_message g e t)))"
    using enc by simp
  show "emitted self (snd (publish_ndeath self g e t)) = [Publish (ndeath_message g e t) None]"
    by (simp add: publish_ndeath_def client_publish_def emitted_def)
  assume a: "Publish m i \<in> set (emitted self (snd (disconnect self now)))"
  have "\<exists>g' e' t'. m = ndeath_message g' e' t'"
  proof (cases "connected self")
    case False
    with a show ?thesis by (simp add: disconnect_not_connected emitted_def)
  next
    case True
    show ?thesis
    proof (cases "published_metrics self")
      case Nil
      with True a show ?thesis by (simp add: disconnect_def emitted_def)
    next
      case (Cons p items)
      obtain k v where p: "p = (k, v)" by (cases p)
      from disconnect_connected_known[OF True, of k v items now] Cons p obtain err where
        "disconnect self now =
          (Some err,
           self\<lparr>client := client self @
             [Publish (ndeath_message (fst k) (snd k) (now k)) None]\<rparr>)"
        by auto
      with a show ?thesis by (auto simp: emitted_def)
    qed
  qed
  then obtain g' e' t' where "m = ndeath_message g' e' t'" by blast
  then have p: "payload m = NDeath (Some t') None"
    by (simp add: ndeath_message_def)
  then show "\<exists>ts. payload m = NDeath (Some ts) None" by blast
  show "isl (encode use_json to_pb include_dtypes (payload m))"
    using p enc by simp
qed

theorem disconnect_deaths_cannot_be_encoded_witness:
  "Publish (ndeath_message (Some ''G'') (Some ''N'') 7) None
     \<in> set (emitted session_two (snd (disconnect session_two (\<lambda>k. 7)))) \<and>
   (\<exists>ts. payload (ndeath_message (Some ''G'') (Some ''N'') 7) = NDeath (Some ts) None) \<and>
   isl (encode False Metric_to_pb True (payload (ndeath_message (Some ''G'') (Some ''N'') 7)))"
proof -
  have a: "Publish (ndeath_message (Some ''G'') (Some ''N'') 7) None
     \<in> set (emitted session_two (snd (disconnect session_two (\<lambda>k. 7))))"
    by (simp add: disconnect_def publish_ndeath_def client_publish_def ndeath_message_def
        set_uint64_def emitted_def session_two_def)
  note t = disconnect_deaths_cannot_be_encoded
             [of "ndeath_message (Some ''G'') (Some ''N'') 7" None session_two "\<lambda>k. 7"
                 False Metric_to_pb True,
              THEN conjunct1, THEN mp, OF a]
  show ?thesis
    using a t [THEN conjunct1] t [THEN conjunct2]
    by (intro conjI)
qed

subsection \<open>Topic hierarchy\<close>

lemma split_join: "concat (map (\<lambda>w. sep # w) (split sep s)) = sep # s"
  by (induction s) (auto split: list.splits)

lemma split_no_sep: "w \<in> set (split sep s) \<Longrightarrow> sep \<notin> set w"
  by (induction s arbitrary: w) (auto split: if_splits list.splits)

text \<open>
  C8, as the claim states it, fails: for a message whose topic has another namespace
  than \<open>spBv1.0\<close> the derivation raises instead of returning the path.
\<close>

theorem topic_hierarchy_rejects_other_namespace:
  "get_topic_hierarchy_from_spb_parris_encoding
     \<lparr>topic = \<lparr>message_type = NDATA, group_id = Some ''Plant:Area'',
                edge_node_id = Some ''Line1'', device_id = None, sparkplug_host_id = None,
                namespace = ''spAv1.0''\<rparr>,
      payload = Data Node 0 0 [], qos = AT_MOST_ONCE, retain = False\<rparr>
     (Metric_default\<lparr>name := Some ''Temp:Sensor1''\<rparr>) = Inl ValueError"
  by (simp add: get_topic_hierarchy_from_spb_parris_encoding_def)

text \<open>
  C8, amended: for every message whose topic has the namespace \<open>spBv1.0\<close> and a group-id,
  and every metric that has a name, the derived path is the group-id split on \<open>:\<close>,
  followed by the node-id (and the device-id when present) when there is no host-id, or
  by the host-id when there is no node-id, followed by the metric name split on \<open>:\<close>. If
  both a node-id and a host-id are present, the derivation raises an error, whatever the
  namespace. The segments of \<open>split\<close> contain no separator and joined by it give the
  string back (\<open>split_no_sep\<close>, \<open>split_join\<close>).
\<close>

theorem topic_hierarchy:
  "(namespace (topic message) = ''spBv1.0'' \<and> group_id (topic message) = Some g \<and>
    name metric = Some n \<longrightarrow>
      (edge_node_id (topic message) = Some e \<and> sparkplug_host_id (topic message) = None \<longrightarrow>
         get_topic_hierarchy_from_spb_parris_encoding message metric =
           Inr (split CHR '':'' g @ [e] @
                (case device_id (topic message) of None \<Rightarrow> [] | Some d \<Rightarrow> [d]) @
                split CHR '':'' n)) \<and>
      (edge_node_id (topic message) = None \<and> sparkplug_host_id (topic message) = Some h \<longrightarrow>
         get_topic_hierarchy_from_spb_parris_encoding message metric =
           Inr (split CHR '':'' g @ [h] @ split CHR '':'' n))) \<and>
   (edge_node_id (topic message) \<noteq> None \<and> sparkplug_host_id (topic message) \<noteq> None \<longrightarrow>
      isl (get_topic_hierarchy_from_spb_parris_encoding message metric))"
  by (auto simp: get_topic_hierarchy_from_spb_parris_encoding_def split: option.splits)

theorem topic_hierarchy_witness:
  "get_topic_hierarchy_from_spb_parris_encoding
     \<lparr>topic = \<lparr>message_type = NDATA, group_id = Some ''Plant:Area'',
                edge_node_id = Some ''Line1'', device_id = None, sparkplug_host_id = None,
                namespace = ''spBv1.0''\<rparr>,
      payload = Data Node 0 0 [], qos = AT_MOST_ONCE, retain = False\<rparr>
     (Metric_default\<lparr>name := Some ''Temp:Sensor1''\<rparr>) =
     Inr [''Plant'', ''Area'', ''Line1'', ''Temp'', ''Sensor1''] \<and>
   get_topic_hierarchy_from_spb_parris_encoding
     \<lparr>topic = \<lparr>message_type = STATE, group_id = Some ''Plant'',
                edge_node_id = None, device_id = None, sparkplug_host_id = Some ''scada'',
                namespace = ''spBv1.0''\<rparr>,
      payload = State 0 True, qos = AT_MOST_ONCE, retain = False\<rparr>
     (Metric_default\<lparr>name := Some ''up''\<rparr>) =
     Inr [''Plant'', ''scada'', ''up''] \<and>
   isl (get_topic_hierarchy_from_spb_parris_encoding
     \<lparr>topic = \<lparr>message_type = NDATA, group_id = Some ''Plant:Area'',
                edge_node_id = Some ''Line1'', device_id = None,
                sparkplug_host_id = Some ''scada'', namespace = ''spBv1.0''\<rparr>,
      payload = Data Node 0 0 [], qos = AT_MOST_ONCE, retain = False\<rparr>
     (Metric_default\<lparr>name := Some ''Temp:Sensor1''\<rparr>))"
proof -
  let ?m1 = "\<lparr>topic = \<lparr>message_type = NDATA, group_id = Some ''Plant:Area'',
                edge_node_id = Some ''Line1'', device_id = None, sparkplug_host_id = None,
                namespace = ''spBv1.0''\<rparr>,
      payload = Data Node 0 0 [], qos = AT_MOST_ONCE, retain = False\<rparr>"
  let ?m2 = "\<lparr>topic = \<lparr>message_type = STATE, group_id = Some ''Plant'',
                edge_node_id = None, device_id = None, sparkplug_host_id = Some ''scada'',
                namespace = ''spBv1.0''\<rparr>,
      payload = State 0 True, qos = AT_MOST_ONCE, retain = False\<rparr>"
  let ?m3 = "\<lparr>topic = \<lparr>message_type = NDATA, group_id = Some ''Plant:Area'',
                edge_node_id = Some ''Line1'', device_id = None,
                sparkplug_host_id = Some ''scada'', namespace = ''spBv1.0''\<rparr>,
      payload = Data Node 0 0 [], qos = AT_MOST_ONCE, retain = False\<rparr>"
  have a: "namespace (topic ?m1) = ''spBv1.0'' \<and> group_id (topic ?m1) = Some ''Plant:Area'' \<and>
    name (Metric_default\<lparr>name := Some ''Temp:Sensor1''\<rparr>) = Some ''Temp:Sensor1''"
    by simp
  have a': "edge_node_id (topic ?m1) = Some ''Line1'' \<and> sparkplug_host_id (topic ?m1) = None"
    by simp
  have b: "namespace (topic ?m2) = ''spBv1.0'' \<and> group_id (topic ?m2) = Some ''Plant'' \<and>
    name (Metric_default\<lparr>name := Some ''up''\<rparr>) = Some ''up''"
    by simp
  have b': "edge_node_id (topic ?m2) = None \<and> sparkplug_host_id (topic ?m2) = Some ''scada''"
    by simp
  have c: "edge_node_id (topic ?m3) \<noteq> None \<and> sparkplug_host_id (topic ?m3) \<noteq> None"
    by simp
  have 1: "get_topic_hierarchy_from_spb_parris_encoding ?m1
             (Metric_default\<lparr>name := Some ''Temp:Sensor1''\<rparr>) =
     Inr [''Plant'', ''Area'', ''Line1'', ''Temp'', ''Sensor1'']"
    using topic_hierarchy [THEN conjunct1, THEN mp, OF a, THEN conjunct1, THEN mp, OF a']
    by simp
  have 2: "get_topic_hierarchy_from_spb_parris_encoding ?m2
             (Metric_default\<lparr>name := Some ''up''\<rparr>) = Inr [''Plant'', ''scada'', ''up'']"
    using topic_hierarchy [THEN conjunct1, THEN mp, OF b, THEN conjunct2, THEN mp, OF b']
    by simp
  show ?thesis
    using 1 2 topic_hierarchy [THEN conjunct2, THEN mp, OF c]
    by (intro conjI)
qed

end
